theory Spec2Isabelle
  imports Complex_Main "HOL-Library.Char_ord" "HOL-Library.List_Lexorder"
begin

section \<open>The relational store\<close>

text \<open>
  The tables of \<^verbatim>\<open>supabase/migrations\<close> that the three request handlers read or
  write, each as the list of its rows in insertion order. A uuid is held as its
  canonical lower-case text, the form in which the store returns it and the auth service
  gives the caller's id, so that two uuids are the same exactly when they are the same
  string. A string of a request body that names a uuid is another matter: the store reads
  it as a uuid, and reads more than one spelling as the same uuid, while the handler's own
  JavaScript compares and sorts the string as it came. send-request, which does both with
  the body's \<^verbatim>\<open>tutor_id\<close>, is modelled with the store's reading; the
  \<^verbatim>\<open>session_id\<close> and \<^verbatim>\<open>request_id\<close> of the other two handlers are only
  looked up, and are taken in canonical spelling. Strings are ordered as JavaScript's
  default \<^verbatim>\<open>sort()\<close> orders them, lexicographically by character code. The \<^verbatim>\<open>credits\<close> column is
  \<^verbatim>\<open>NUMERIC(10, 2)\<close>: the handlers only add or subtract 1 and 0.5, which the
  column stores exactly, so a balance is a rational number. The \<^verbatim>\<open>status\<close> and
  \<^verbatim>\<open>type\<close> columns are TEXT with a CHECK constraint listing their values, hence
  datatypes. Columns that no handler reads or writes (\<^verbatim>\<open>created_at\<close>,
  \<^verbatim>\<open>updated_at\<close>, \<^verbatim>\<open>email\<close>, \<^verbatim>\<open>bio\<close>, the surrogate keys of
  \<^verbatim>\<open>profiles\<close>, \<^verbatim>\<open>credit_transactions\<close> and \<^verbatim>\<open>messages\<close>) are left out.
\<close>

type_synonym uuid = string
type_synonym timestamptz = string

datatype request_status = Pending | Accepted | Rejected | Request_cancelled

datatype session_status = Scheduled | In_progress | Completed | Cancelled

datatype transaction_type = Teaching | Learning | Ai_session | Welcome_bonus | Top_up

record profile =
  p_user_id :: uuid
  p_name :: string
  p_credits :: rat

record learning_request =
  lr_id :: uuid
  lr_learner_id :: uuid
  lr_tutor_id :: uuid
  lr_skill_id :: "uuid option"
  lr_message :: "string option"
  lr_proposed_datetime :: "timestamptz option"
  lr_status :: request_status

record session =
  s_id :: uuid
  s_request_id :: "uuid option"
  s_tutor_id :: uuid
  s_learner_id :: uuid
  s_skill_id :: "uuid option"
  s_scheduled_at :: timestamptz
  s_duration_minutes :: int
  s_status :: session_status
  s_tutor_notes :: "string option"
  s_learner_notes :: "string option"
  s_is_ai_session :: "bool option"
  s_completed_at :: "timestamptz option"

record credit_transaction =
  ct_user_id :: uuid
  ct_amount :: rat
  ct_type :: transaction_type
  ct_session_id :: "uuid option"
  ct_description :: "string option"

record conversation =
  c_id :: uuid
  c_participant_1 :: uuid
  c_participant_2 :: uuid
  c_last_message_at :: "timestamptz option"

record message =
  m_conversation_id :: uuid
  m_sender_id :: uuid
  m_content :: string
  m_read_at :: "timestamptz option"

record db =
  profiles :: "profile list"
  learning_requests :: "learning_request list"
  sessions :: "session list"
  credit_transactions :: "credit_transaction list"
  conversations :: "conversation list"
  messages :: "message list"

subsection \<open>Queries\<close>

text \<open>
  \<^verbatim>\<open>.single()\<close> yields the row when the filter matches exactly one, and an error
  with \<^verbatim>\<open>data: null\<close> when it matches none or several.
\<close>

definition single :: "'a list \<Rightarrow> 'a option" where
  "single rows = (case rows of [r] \<Rightarrow> Some r | _ \<Rightarrow> None)"

definition select_profile :: "db \<Rightarrow> uuid \<Rightarrow> profile option" where
  "select_profile d uid = single (filter (\<lambda>p. p_user_id p = uid) (profiles d))"

definition select_request :: "db \<Rightarrow> uuid \<Rightarrow> learning_request option" where
  "select_request d rid = single (filter (\<lambda>r. lr_id r = rid) (learning_requests d))"

definition select_session :: "db \<Rightarrow> uuid \<Rightarrow> session option" where
  "select_session d sid = single (filter (\<lambda>s. s_id s = sid) (sessions d))"

definition select_conversation :: "db \<Rightarrow> uuid \<Rightarrow> uuid \<Rightarrow> conversation option" where
  "select_conversation d p1 p2 =
     single (filter (\<lambda>c. c_participant_1 c = p1 \<and> c_participant_2 c = p2) (conversations d))"

text \<open>The credit balance of a user, read the way the handlers read it.\<close>

definition balance :: "db \<Rightarrow> uuid \<Rightarrow> rat option" where
  "balance d uid = map_option p_credits (select_profile d uid)"

subsection \<open>Writes\<close>

text \<open>
  An update rewrites every row the filter matches. An insert appends the row unless a
  constraint of the table rejects it: the primary key, and for conversations
  \<^verbatim>\<open>unique_conversation UNIQUE (participant_1, participant_2)\<close>. Whatever else makes
  a write fail (a foreign key into a table not modelled, numeric overflow, an outage) is a
  flag of the handler's environment, checked where the handler issues the write.
\<close>

definition update_credits :: "uuid \<Rightarrow> rat \<Rightarrow> db \<Rightarrow> db" where
  "update_credits uid v d =
     d\<lparr>profiles := map (\<lambda>p. if p_user_id p = uid then p\<lparr>p_credits := v\<rparr> else p) (profiles d)\<rparr>"

definition update_session_completed ::
  "uuid \<Rightarrow> timestamptz \<Rightarrow> string option \<Rightarrow> string option \<Rightarrow> db \<Rightarrow> db" where
  "update_session_completed sid now tnotes lnotes d =
     d\<lparr>sessions := map (\<lambda>s. if s_id s = sid
          then s\<lparr>s_status := Completed, s_completed_at := Some now,
                 s_tutor_notes := tnotes, s_learner_notes := lnotes\<rparr>
          else s) (sessions d)\<rparr>"

definition update_request_status :: "uuid \<Rightarrow> request_status \<Rightarrow> db \<Rightarrow> db" where
  "update_request_status rid st d =
     d\<lparr>learning_requests :=
          map (\<lambda>r. if lr_id r = rid then r\<lparr>lr_status := st\<rparr> else r) (learning_requests d)\<rparr>"

definition update_last_message_at :: "uuid \<Rightarrow> timestamptz \<Rightarrow> db \<Rightarrow> db" where
  "update_last_message_at cid now d =
     d\<lparr>conversations :=
          map (\<lambda>c. if c_id c = cid then c\<lparr>c_last_message_at := Some now\<rparr> else c) (conversations d)\<rparr>"

definition insert_credit_transaction :: "credit_transaction \<Rightarrow> db \<Rightarrow> db" where
  "insert_credit_transaction row d = d\<lparr>credit_transactions := credit_transactions d @ [row]\<rparr>"

definition insert_message :: "message \<Rightarrow> db \<Rightarrow> db" where
  "insert_message row d = d\<lparr>messages := messages d @ [row]\<rparr>"

definition insert_request :: "learning_request \<Rightarrow> db \<Rightarrow> db option" where
  "insert_request row d =
     (if lr_id row \<in> set (map lr_id (learning_requests d)) then None
      else Some (d\<lparr>learning_requests := learning_requests d @ [row]\<rparr>))"

definition insert_session :: "session \<Rightarrow> db \<Rightarrow> db option" where
  "insert_session row d =
     (if s_id row \<in> set (map s_id (sessions d)) then None
      else Some (d\<lparr>sessions := sessions d @ [row]\<rparr>))"

definition insert_conversation :: "conversation \<Rightarrow> db \<Rightarrow> db option" where
  "insert_conversation row d =
     (if c_id row \<in> set (map c_id (conversations d))
         \<or> (c_participant_1 row, c_participant_2 row)
              \<in> set (map (\<lambda>c. (c_participant_1 c, c_participant_2 c)) (conversations d))
      then None
      else Some (d\<lparr>conversations := conversations d @ [row]\<rparr>))"

section \<open>Requests and responses\<close>

text \<open>
  A handler sees the HTTP method, the \<^verbatim>\<open>Authorization\<close> header, the user that
  \<^verbatim>\<open>auth.getUser()\<close> resolves the bearer credential to (none on an auth error),
  and the JSON body (none when \<^verbatim>\<open>req.json()\<close> throws, which the handler's
  \<^verbatim>\<open>catch\<close> turns into a 500). It answers with a status code and a JSON payload,
  writes lines to the console and leaves the store in a new state. A header that is present
  and empty counts as present here; the handlers answer it 401 as a missing one, and no
  user is resolved from it.
\<close>

record 'b request =
  req_method :: string
  req_authorization :: "string option"
  req_user :: "uuid option"
  req_body :: "'b option"

datatype payload =
    Plain string
  | Error string
  | Success string
  | Success_request learning_request
  | Success_session session

datatype console_line = Log string | Err string

record outcome =
  out_status :: nat
  out_payload :: payload
  out_console :: "console_line list"
  out_db :: db

definition respond :: "nat \<Rightarrow> payload \<Rightarrow> console_line list \<Rightarrow> db \<Rightarrow> outcome" where
  "respond code body lines d =
     \<lparr>out_status = code, out_payload = body, out_console = lines, out_db = d\<rparr>"

text \<open>JavaScript truthiness of an optional string field: absent and empty are falsy.\<close>

definition falsy :: "string option \<Rightarrow> bool" where
  "falsy v = (case v of None \<Rightarrow> True | Some s \<Rightarrow> s = [])"

text \<open>\<^verbatim>\<open>a || b\<close> on optional strings.\<close>

definition or_else :: "string option \<Rightarrow> string option \<Rightarrow> string option" where
  "or_else a b = (if falsy a then b else a)"

section \<open>complete-session\<close>

record complete_session_request =
  cs_session_id :: "string option"
  cs_tutor_notes :: "string option"
  cs_learner_notes :: "string option"

text \<open>
  What the handler takes from its surroundings: the clock, and for each write it issues
  whether the store reports an error for it.
\<close>

record complete_env =
  cs_now :: timestamptz
  cs_update_session_fails :: bool
  cs_deduct_fails :: bool
  cs_credit_tutor_fails :: bool
  cs_insert_learner_tx_fails :: bool
  cs_insert_tutor_tx_fails :: bool

definition isAiSession :: "session \<Rightarrow> bool" where
  "isAiSession s = (s_is_ai_session s = Some True)"

definition creditCost :: "session \<Rightarrow> rat" where
  "creditCost s = (if isAiSession s then 1 / 2 else 1)"

definition learner_transaction :: "session \<Rightarrow> uuid \<Rightarrow> credit_transaction" where
  "learner_transaction s sid =
     \<lparr>ct_user_id = s_learner_id s,
      ct_amount = - creditCost s,
      ct_type = (if isAiSession s then Ai_session else Learning),
      ct_session_id = Some sid,
      ct_description =
        Some (if isAiSession s then ''AI Learning Session'' else ''Human tutoring session'')\<rparr>"

definition tutor_transaction :: "session \<Rightarrow> uuid \<Rightarrow> credit_transaction" where
  "tutor_transaction s sid =
     \<lparr>ct_user_id = s_tutor_id s,
      ct_amount = 1,
      ct_type = Teaching,
      ct_session_id = Some sid,
      ct_description = Some ''Teaching session completed''\<rparr>"

text \<open>
  Lines 138 to 193 of the handler: the writes that follow the session's status update.
  None of their errors stops the handler; only the deduction's error is logged.
\<close>

definition transfer_credits ::
  "complete_env \<Rightarrow> uuid \<Rightarrow> session \<Rightarrow> profile \<Rightarrow> console_line list \<Rightarrow> db \<Rightarrow> outcome" where
  "transfer_credits env sid s learnerProfile lines d1 =
     (let d2 = (if cs_deduct_fails env then d1
                else update_credits (s_learner_id s) (p_credits learnerProfile - creditCost s) d1);
          lines2 = (if cs_deduct_fails env then lines @ [Err ''Failed to deduct credits:'']
                    else lines);
          d3 = (if \<not> isAiSession s then
                  (case select_profile d2 (s_tutor_id s) of
                     None \<Rightarrow> d2
                   | Some tutorProfile \<Rightarrow>
                       if cs_credit_tutor_fails env then d2
                       else update_credits (s_tutor_id s) (p_credits tutorProfile + 1) d2)
                else d2);
          d4 = (if cs_insert_learner_tx_fails env then d3
                else insert_credit_transaction (learner_transaction s sid) d3);
          d5 = (if \<not> isAiSession s then
                  (if cs_insert_tutor_tx_fails env then d4
                   else insert_credit_transaction (tutor_transaction s sid) d4)
                else d4)
      in respond 200 (Success ''Session completed and credits transferred'')
           (lines2 @ [Log (''Session '' @ sid @ '' completed successfully. Credits transferred.'')])
           d5)"

definition complete_session ::
  "complete_env \<Rightarrow> complete_session_request request \<Rightarrow> db \<Rightarrow> outcome" where
  "complete_session env req d =
     (if req_method req = ''OPTIONS'' then respond 200 (Plain ''ok'') [] d
      else case req_authorization req of
        None \<Rightarrow> respond 401 (Error ''Missing authorization header'') [] d
      | Some authHeader \<Rightarrow>
      (case req_user req of
        None \<Rightarrow> respond 401 (Error ''Unauthorized'') [Err ''Auth error:''] d
      | Some user \<Rightarrow>
      (case req_body req of
        None \<Rightarrow> respond 500 (Error ''Internal server error'') [Err ''Unexpected error:''] d
      | Some body \<Rightarrow>
      (case cs_session_id body of
        None \<Rightarrow> respond 400 (Error ''session_id is required'') [] d
      | Some sid \<Rightarrow>
      if sid = [] then respond 400 (Error ''session_id is required'') [] d
      else
        let lines = [Log (''Completing session '' @ sid @ '' by user '' @ user)] in
        (case select_session d sid of
          None \<Rightarrow> respond 404 (Error ''Session not found'') (lines @ [Err ''Session not found:'']) d
        | Some s \<Rightarrow>
        if s_tutor_id s \<noteq> user \<and> s_learner_id s \<noteq> user
        then respond 403 (Error ''You are not a participant in this session'') lines d
        else if s_status s = Completed
        then respond 400 (Error ''Session is already completed'') lines d
        else
        (case select_profile d (s_learner_id s) of
          None \<Rightarrow> respond 404 (Error ''Learner profile not found'')
                    (lines @ [Err ''Learner profile not found:'']) d
        | Some learnerProfile \<Rightarrow>
        if p_credits learnerProfile < creditCost s
        then respond 400 (Error ''Insufficient credits'') lines d
        else if cs_update_session_fails env
        then respond 500 (Error ''Failed to update session'')
               (lines @ [Err ''Failed to update session:'']) d
        else
          transfer_credits env sid s learnerProfile lines
            (update_session_completed sid (cs_now env)
               (or_else (cs_tutor_notes body) (s_tutor_notes s))
               (or_else (cs_learner_notes body) (s_learner_notes s)) d)))))))"

section \<open>accept-request\<close>

record accept_request_body =
  ar_request_id :: "string option"
  ar_scheduled_at :: "string option"
  ar_duration_minutes :: "int option"

text \<open>
  The environment of accept-request: the clock, the UUID that \<^verbatim>\<open>gen_random_uuid()\<close>
  gives the new session, how the runtime's locale prints a date
  (\<^verbatim>\<open>new Date(scheduled_at).toLocaleString()\<close>), and a failure flag for each write.
\<close>

record accept_env =
  ar_now :: timestamptz
  ar_new_session_id :: uuid
  ar_toLocaleString :: "string \<Rightarrow> string"
  ar_update_request_fails :: bool
  ar_insert_session_fails :: bool
  ar_insert_message_fails :: bool
  ar_update_conversation_fails :: bool

text \<open>\<^verbatim>\<open>[a, b].sort()\<close>: the two identifiers in ascending order.\<close>

definition sortedIds :: "uuid \<Rightarrow> uuid \<Rightarrow> uuid list" where
  "sortedIds a b = sort [a, b]"

text \<open>The UTF-8 bytes of the two emoji that open the handlers' chat messages.\<close>

definition check_mark :: string where
  "check_mark = [CHR 0xE2, CHR 0x9C, CHR 0x85]"

definition books :: string where
  "books = [CHR 0xF0, CHR 0x9F, CHR 0x93, CHR 0x9A]"

text \<open>
  The session row that the insert returns: the handler's columns, and the table's defaults
  for the others.
\<close>

definition new_session :: "accept_env \<Rightarrow> uuid \<Rightarrow> learning_request \<Rightarrow> string \<Rightarrow> int option \<Rightarrow> session" where
  "new_session env rid request scheduled_at duration =
     \<lparr>s_id = ar_new_session_id env,
      s_request_id = Some rid,
      s_tutor_id = lr_tutor_id request,
      s_learner_id = lr_learner_id request,
      s_skill_id = lr_skill_id request,
      s_scheduled_at = scheduled_at,
      s_duration_minutes = (case duration of None \<Rightarrow> 60 | Some m \<Rightarrow> m),
      s_status = Scheduled,
      s_tutor_notes = None,
      s_learner_notes = None,
      s_is_ai_session = Some False,
      s_completed_at = None\<rparr>"

text \<open>
  Lines 115 to 142: the chat message, posted only when the two users already have a
  conversation. A conversation's id is a UUID, never empty, so \<^verbatim>\<open>if (convo)\<close> holds
  exactly when a row was found.
\<close>

definition notify_accepted ::
  "accept_env \<Rightarrow> uuid \<Rightarrow> learning_request \<Rightarrow> string \<Rightarrow> db \<Rightarrow> db" where
  "notify_accepted env user request scheduled_at d2 =
     (let ids = sortedIds (lr_learner_id request) (lr_tutor_id request) in
      case select_conversation d2 (ids ! 0) (ids ! 1) of
        None \<Rightarrow> d2
      | Some convo \<Rightarrow>
          let d3 = (if ar_insert_message_fails env then d2
                    else insert_message
                      \<lparr>m_conversation_id = c_id convo,
                       m_sender_id = user,
                       m_content = check_mark @ '' Request accepted! Session scheduled for ''
                                     @ ar_toLocaleString env scheduled_at,
                       m_read_at = None\<rparr> d2)
          in if ar_update_conversation_fails env then d3
             else update_last_message_at (c_id convo) (ar_now env) d3)"

definition accept_request ::
  "accept_env \<Rightarrow> accept_request_body request \<Rightarrow> db \<Rightarrow> outcome" where
  "accept_request env req d =
     (if req_method req = ''OPTIONS'' then respond 200 (Plain ''ok'') [] d
      else case req_authorization req of
        None \<Rightarrow> respond 401 (Error ''Missing authorization header'') [] d
      | Some authHeader \<Rightarrow>
      (case req_user req of
        None \<Rightarrow> respond 401 (Error ''Unauthorized'') [] d
      | Some user \<Rightarrow>
      (case req_body req of
        None \<Rightarrow> respond 500 (Error ''Internal server error'') [Err ''Unexpected error:''] d
      | Some body \<Rightarrow>
      if falsy (ar_request_id body) \<or> falsy (ar_scheduled_at body)
      then respond 400 (Error ''request_id and scheduled_at are required'') [] d
      else
      (case (ar_request_id body, ar_scheduled_at body) of
        (Some rid, Some scheduled_at) \<Rightarrow>
        (case select_request d rid of
          None \<Rightarrow> respond 404 (Error ''Request not found'') [] d
        | Some request \<Rightarrow>
        if lr_tutor_id request \<noteq> user
        then respond 403 (Error ''Only the tutor can accept this request'') [] d
        else if lr_status request \<noteq> Pending
        then respond 400 (Error ''Request is no longer pending'') [] d
        else
          let d1 = (if ar_update_request_fails env then d
                    else update_request_status rid Accepted d);
              row = new_session env rid request scheduled_at (ar_duration_minutes body)
          in
          (case (if ar_insert_session_fails env then None else insert_session row d1) of
            None \<Rightarrow> respond 500 (Error ''Failed to create session'')
                      [Err ''Failed to create session:''] d1
          | Some d2 \<Rightarrow>
              respond 201 (Success_session row)
                [Log (''Request '' @ rid @ '' accepted. Session '' @ s_id row @ '' created.'')]
                (notify_accepted env user request scheduled_at d2)))
      | _ \<Rightarrow> respond 400 (Error ''request_id and scheduled_at are required'') [] d))))"

section \<open>send-request\<close>

record send_request_body =
  sr_tutor_id :: "string option"
  sr_skill_id :: "string option"
  sr_message :: "string option"
  sr_proposed_datetime :: "string option"

text \<open>
  The environment of send-request: the clock, the UUIDs that \<^verbatim>\<open>gen_random_uuid()\<close>
  gives the new rows, the uuid that the store reads from a string sent to one of its uuid
  columns (none when the string is not the text of a uuid, and the query fails), and a
  failure flag for each write.
\<close>

record send_env =
  sr_now :: timestamptz
  sr_new_request_id :: uuid
  sr_new_conversation_id :: uuid
  sr_uuid_in :: "string \<Rightarrow> uuid option"
  sr_insert_request_fails :: bool
  sr_insert_conversation_fails :: bool
  sr_insert_message_fails :: bool
  sr_update_conversation_fails :: bool

text \<open>
  The request row that the insert returns. The handler sends the body's \<^verbatim>\<open>tutor_id\<close>
  and \<^verbatim>\<open>skill_id\<close> as they came; the row holds the uuids that the store read from
  them, \<open>tid\<close> for the tutor. A \<^verbatim>\<open>skill_id\<close> that is not the text of a uuid makes
  the insert fail.
\<close>

definition skill_unreadable :: "send_env \<Rightarrow> send_request_body \<Rightarrow> bool" where
  "skill_unreadable env body =
     (case or_else (sr_skill_id body) None of
        None \<Rightarrow> False
      | Some skill \<Rightarrow> sr_uuid_in env skill = None)"

definition new_request :: "send_env \<Rightarrow> uuid \<Rightarrow> uuid \<Rightarrow> string \<Rightarrow> send_request_body \<Rightarrow> learning_request" where
  "new_request env user tid msg body =
     \<lparr>lr_id = sr_new_request_id env,
      lr_learner_id = user,
      lr_tutor_id = tid,
      lr_skill_id = (case or_else (sr_skill_id body) None of
                       None \<Rightarrow> None
                     | Some skill \<Rightarrow> sr_uuid_in env skill),
      lr_message = Some msg,
      lr_proposed_datetime = or_else (sr_proposed_datetime body) None,
      lr_status = Pending\<rparr>"

text \<open>
  Lines 114 to 142: sort the caller's id and the body's \<^verbatim>\<open>tutor_id\<close> as strings,
  look the conversation up under the two sorted strings and create it when there is none.
  The store reads both strings as uuids, for the lookup and for the insert; were one of
  them not the text of a uuid, both queries would fail. The result is the conversation's
  id (none when the insert failed), the console lines and the store.
\<close>

definition create_or_get_conversation ::
  "send_env \<Rightarrow> uuid \<Rightarrow> string \<Rightarrow> db \<Rightarrow> uuid option \<times> console_line list \<times> db" where
  "create_or_get_conversation env user tutor_id d1 =
     (let ids = sortedIds user tutor_id in
      case (sr_uuid_in env (ids ! 0), sr_uuid_in env (ids ! 1)) of
        (Some p1, Some p2) \<Rightarrow>
          (case select_conversation d1 p1 p2 of
             Some existingConvo \<Rightarrow> (Some (c_id existingConvo), [], d1)
           | None \<Rightarrow>
               (case (if sr_insert_conversation_fails env then None
                      else insert_conversation
                        \<lparr>c_id = sr_new_conversation_id env,
                         c_participant_1 = p1,
                         c_participant_2 = p2,
                         c_last_message_at = Some (sr_now env)\<rparr> d1) of
                  None \<Rightarrow> (None, [Err ''Failed to create conversation:''], d1)
                | Some d2 \<Rightarrow> (Some (sr_new_conversation_id env), [], d2)))
      | _ \<Rightarrow> (None, [Err ''Failed to create conversation:''], d1))"

text \<open>Lines 144 to 156: the initial message, when there is a conversation to post it to.\<close>

definition send_initial_message ::
  "send_env \<Rightarrow> uuid \<Rightarrow> string \<Rightarrow> uuid option \<Rightarrow> db \<Rightarrow> db" where
  "send_initial_message env user msg conversationId d2 =
     (case conversationId of
        None \<Rightarrow> d2
      | Some cid \<Rightarrow>
          let d3 = (if sr_insert_message_fails env then d2
                    else insert_message
                      \<lparr>m_conversation_id = cid,
                       m_sender_id = user,
                       m_content = books @ '' Learning Request: '' @ msg,
                       m_read_at = None\<rparr> d2)
          in if sr_update_conversation_fails env then d3
             else update_last_message_at cid (sr_now env) d3)"

text \<open>
  The handler. The check against a request to oneself (line 55) compares the body's string
  with the caller's id; the tutor's profile (lines 79 to 83) is looked up under the uuid
  that the store reads from the same string.
\<close>

definition send_request ::
  "send_env \<Rightarrow> send_request_body request \<Rightarrow> db \<Rightarrow> outcome" where
  "send_request env req d =
     (if req_method req = ''OPTIONS'' then respond 200 (Plain ''ok'') [] d
      else case req_authorization req of
        None \<Rightarrow> respond 401 (Error ''Missing authorization header'') [] d
      | Some authHeader \<Rightarrow>
      (case req_user req of
        None \<Rightarrow> respond 401 (Error ''Unauthorized'') [] d
      | Some user \<Rightarrow>
      (case req_body req of
        None \<Rightarrow> respond 500 (Error ''Internal server error'') [Err ''Unexpected error:''] d
      | Some body \<Rightarrow>
      if falsy (sr_tutor_id body) \<or> falsy (sr_message body)
      then respond 400 (Error ''tutor_id and message are required'') [] d
      else
      (case (sr_tutor_id body, sr_message body) of
        (Some tutor_id, Some msg) \<Rightarrow>
        if tutor_id = user
        then respond 400 (Error ''You cannot send a request to yourself'') [] d
        else
        (case select_profile d user of
          None \<Rightarrow> respond 400 (Error ''Insufficient credits to send a request'') [] d
        | Some learnerProfile \<Rightarrow>
        if p_credits learnerProfile < 1
        then respond 400 (Error ''Insufficient credits to send a request'') [] d
        else
        (case sr_uuid_in env tutor_id of
          None \<Rightarrow> respond 404 (Error ''Tutor not found'') [] d
        | Some tid \<Rightarrow>
        (case select_profile d tid of
          None \<Rightarrow> respond 404 (Error ''Tutor not found'') [] d
        | Some tutorProfile \<Rightarrow>
          let row = new_request env user tid msg body in
          (case (if sr_insert_request_fails env \<or> skill_unreadable env body then None
                 else insert_request row d) of
            None \<Rightarrow> respond 500 (Error ''Failed to create request'')
                      [Err ''Failed to create request:''] d
          | Some d1 \<Rightarrow>
              (case create_or_get_conversation env user tutor_id d1 of
                (conversationId, lines, d2) \<Rightarrow>
                  respond 201 (Success_request row)
                    (lines @ [Log (''Request '' @ lr_id row @ '' created by '' @ user
                                   @ '' for tutor '' @ tutor_id)])
                    (send_initial_message env user msg conversationId d2))))))
      | _ \<Rightarrow> respond 400 (Error ''tutor_id and message are required'') [] d))))"

section \<open>Conversations between two users\<close>

text \<open>
  The pair of participants of a conversation row, in the order of its two columns, and the
  rows of the table that lie between two users, in either order.
\<close>

definition conv_pair :: "conversation \<Rightarrow> uuid \<times> uuid" where
  "conv_pair c = (c_participant_1 c, c_participant_2 c)"

definition conversations_between :: "db \<Rightarrow> uuid \<Rightarrow> uuid \<Rightarrow> conversation list" where
  "conversations_between d a b =
     filter (\<lambda>c. conv_pair c = (a, b) \<or> conv_pair c = (b, a)) (conversations d)"

section \<open>Reading the text of a uuid\<close>

text \<open>
  The reading of the example environments below: a string in the hyphenated form of a
  uuid, its hexadecimal digits in either case, is read as the uuid whose text is the string
  in lower case; any other string is not read. The store (PostgreSQL's uuid input, which is
  not part of the repository) reads these strings so; the theorems about send-request that
  are not about an example hold for whatever the store reads.
\<close>

definition hex_digit :: "char \<Rightarrow> bool" where
  "hex_digit c = (c \<in> set ''0123456789abcdefABCDEF'')"

definition lower_hex :: "char \<Rightarrow> char" where
  "lower_hex c = (case map_of (zip ''ABCDEF'' ''abcdef'') c of None \<Rightarrow> c | Some l \<Rightarrow> l)"

fun uuid_shape :: "string \<Rightarrow> string \<Rightarrow> bool" where
  "uuid_shape [] [] = True"
| "uuid_shape (t # ts) (c # cs) =
     ((if t = CHR ''-'' then c = CHR ''-'' else hex_digit c) \<and> uuid_shape ts cs)"
| "uuid_shape _ _ = False"

definition uuid_in :: "string \<Rightarrow> uuid option" where
  "uuid_in s =
     (if uuid_shape ''xxxxxxxx-xxxx-xxxx-xxxx-xxxxxxxxxxxx'' s then Some (map lower_hex s)
      else None)"

section \<open>Example data\<close>

text \<open>A small store and calls on it, on which the theorems below are instantiated.\<close>

definition alice :: uuid where
  "alice = ''a0000000-0000-4000-8000-000000000001''"

definition bob :: uuid where
  "bob = ''b0000000-0000-4000-8000-000000000002''"

definition carol :: uuid where
  "carol = ''c0000000-0000-4000-8000-000000000003''"

definition dave :: uuid where
  "dave = ''d0000000-0000-4000-8000-000000000004''"

definition human_session :: session where
  "human_session =
     \<lparr>s_id = ''50000000-0000-4000-8000-000000000001'', s_request_id = None,
      s_tutor_id = bob, s_learner_id = alice, s_skill_id = None,
      s_scheduled_at = ''2026-03-01T10:00:00Z'', s_duration_minutes = 60,
      s_status = Scheduled, s_tutor_notes = None, s_learner_notes = None,
      s_is_ai_session = Some False, s_completed_at = None\<rparr>"

definition ai_session :: session where
  "ai_session =
     \<lparr>s_id = ''50000000-0000-4000-8000-000000000002'', s_request_id = None,
      s_tutor_id = bob, s_learner_id = alice, s_skill_id = None,
      s_scheduled_at = ''2026-03-02T10:00:00Z'', s_duration_minutes = 30,
      s_status = In_progress, s_tutor_notes = None, s_learner_notes = None,
      s_is_ai_session = Some True, s_completed_at = None\<rparr>"

definition cancelled_session :: session where
  "cancelled_session =
     \<lparr>s_id = ''50000000-0000-4000-8000-000000000003'', s_request_id = None,
      s_tutor_id = bob, s_learner_id = alice, s_skill_id = None,
      s_scheduled_at = ''2026-03-03T10:00:00Z'', s_duration_minutes = 60,
      s_status = Cancelled, s_tutor_notes = None, s_learner_notes = None,
      s_is_ai_session = Some False, s_completed_at = None\<rparr>"

definition self_session :: session where
  "self_session =
     \<lparr>s_id = ''50000000-0000-4000-8000-000000000004'', s_request_id = None,
      s_tutor_id = alice, s_learner_id = alice, s_skill_id = None,
      s_scheduled_at = ''2026-03-04T10:00:00Z'', s_duration_minutes = 60,
      s_status = Scheduled, s_tutor_notes = None, s_learner_notes = None,
      s_is_ai_session = Some False, s_completed_at = None\<rparr>"

definition orphan_session :: session where
  "orphan_session =
     \<lparr>s_id = ''50000000-0000-4000-8000-000000000006'', s_request_id = None,
      s_tutor_id = dave, s_learner_id = alice, s_skill_id = None,
      s_scheduled_at = ''2026-03-05T10:00:00Z'', s_duration_minutes = 60,
      s_status = Scheduled, s_tutor_notes = None, s_learner_notes = None,
      s_is_ai_session = Some False, s_completed_at = None\<rparr>"

definition completed_session :: session where
  "completed_session =
     \<lparr>s_id = ''50000000-0000-4000-8000-000000000005'', s_request_id = None,
      s_tutor_id = bob, s_learner_id = alice, s_skill_id = None,
      s_scheduled_at = ''2026-02-01T10:00:00Z'', s_duration_minutes = 60,
      s_status = Completed, s_tutor_notes = None, s_learner_notes = None,
      s_is_ai_session = Some False, s_completed_at = Some ''2026-02-01T11:00:00Z''\<rparr>"

definition pending_request :: learning_request where
  "pending_request =
     \<lparr>lr_id = ''40000000-0000-4000-8000-000000000001'', lr_learner_id = alice,
      lr_tutor_id = bob, lr_skill_id = None, lr_message = Some ''Teach me guitar'',
      lr_proposed_datetime = None, lr_status = Pending\<rparr>"

definition accepted_request :: learning_request where
  "accepted_request =
     \<lparr>lr_id = ''40000000-0000-4000-8000-000000000002'', lr_learner_id = alice,
      lr_tutor_id = bob, lr_skill_id = None, lr_message = Some ''Teach me piano'',
      lr_proposed_datetime = None, lr_status = Accepted\<rparr>"

definition demo_db :: db where
  "demo_db =
     \<lparr>profiles =
        [\<lparr>p_user_id = alice, p_name = ''Alice'', p_credits = 3\<rparr>,
         \<lparr>p_user_id = bob, p_name = ''Bob'', p_credits = 3\<rparr>,
         \<lparr>p_user_id = carol, p_name = ''Carol'', p_credits = 1 / 2\<rparr>],
      learning_requests = [pending_request, accepted_request],
      sessions = [human_session, ai_session, cancelled_session, self_session,
                  completed_session, orphan_session],
      credit_transactions = [],
      conversations = [],
      messages = []\<rparr>"

definition call :: "uuid \<Rightarrow> 'b \<Rightarrow> 'b request" where
  "call user body =
     \<lparr>req_method = ''POST'', req_authorization = Some ''Bearer token'',
      req_user = Some user, req_body = Some body\<rparr>"

definition complete_body :: "session \<Rightarrow> complete_session_request" where
  "complete_body s =
     \<lparr>cs_session_id = Some (s_id s), cs_tutor_notes = None, cs_learner_notes = None\<rparr>"

definition complete_env_ok :: complete_env where
  "complete_env_ok =
     \<lparr>cs_now = ''2026-03-05T12:00:00Z'', cs_update_session_fails = False,
      cs_deduct_fails = False, cs_credit_tutor_fails = False,
      cs_insert_learner_tx_fails = False, cs_insert_tutor_tx_fails = False\<rparr>"

definition complete_env_deduct_fails :: complete_env where
  "complete_env_deduct_fails = complete_env_ok\<lparr>cs_deduct_fails := True\<rparr>"

definition accept_env_ok :: accept_env where
  "accept_env_ok =
     \<lparr>ar_now = ''2026-03-05T12:00:00Z'',
      ar_new_session_id = ''50000000-0000-4000-8000-000000000009'',
      ar_toLocaleString = (\<lambda>s. s),
      ar_update_request_fails = False, ar_insert_session_fails = False,
      ar_insert_message_fails = False, ar_update_conversation_fails = False\<rparr>"

definition accept_body :: "learning_request \<Rightarrow> accept_request_body" where
  "accept_body r =
     \<lparr>ar_request_id = Some (lr_id r), ar_scheduled_at = Some ''2026-03-10T10:00:00Z'',
      ar_duration_minutes = None\<rparr>"

definition send_env_ok :: send_env where
  "send_env_ok =
     \<lparr>sr_now = ''2026-03-05T12:00:00Z'',
      sr_new_request_id = ''40000000-0000-4000-8000-000000000009'',
      sr_new_conversation_id = ''60000000-0000-4000-8000-000000000001'',
      sr_uuid_in = uuid_in,
      sr_insert_request_fails = False, sr_insert_conversation_fails = False,
      sr_insert_message_fails = False, sr_update_conversation_fails = False\<rparr>"

definition send_body :: "string \<Rightarrow> send_request_body" where
  "send_body tutor =
     \<lparr>sr_tutor_id = Some tutor, sr_skill_id = None,
      sr_message = Some ''Please teach me guitar'', sr_proposed_datetime = None\<rparr>"

definition send_env_next :: send_env where
  "send_env_next =
     \<lparr>sr_now = ''2026-03-06T09:00:00Z'',
      sr_new_request_id = ''40000000-0000-4000-8000-00000000000a'',
      sr_new_conversation_id = ''60000000-0000-4000-8000-000000000002'',
      sr_uuid_in = uuid_in,
      sr_insert_request_fails = False, sr_insert_conversation_fails = False,
      sr_insert_message_fails = False, sr_update_conversation_fails = False\<rparr>"

definition first_contact :: db where
  "first_contact = out_db (send_request send_env_ok (call alice (send_body bob)) demo_db)"

text \<open>Alice's and Bob's ids as a request body may spell them, in upper case.\<close>

definition alice_upper :: string where
  "alice_upper = ''A0000000-0000-4000-8000-000000000001''"

definition bob_upper :: string where
  "bob_upper = ''B0000000-0000-4000-8000-000000000002''"

section \<open>Facts about queries after writes\<close>

lemma single_map: "single (map f rows) = map_option f (single rows)"
  by (cases rows rule: list.exhaust; simp add: single_def split: list.splits)

lemma filter_credits_same:
  "filter (\<lambda>p. p_user_id p = u)
          (map (\<lambda>p. if p_user_id p = u then p\<lparr>p_credits := v\<rparr> else p) ps)
   = map (\<lambda>p. p\<lparr>p_credits := v\<rparr>) (filter (\<lambda>p. p_user_id p = u) ps)"
  by (induction ps) auto

lemma filter_credits_other:
  "u' \<noteq> u \<Longrightarrow>
   filter (\<lambda>p. p_user_id p = u')
          (map (\<lambda>p. if p_user_id p = u then p\<lparr>p_credits := v\<rparr> else p) ps)
   = filter (\<lambda>p. p_user_id p = u') ps"
  by (induction ps) auto

lemma select_profile_update_credits_same:
  "select_profile (update_credits u v d) u
   = map_option (\<lambda>p. p\<lparr>p_credits := v\<rparr>) (select_profile d u)"
  by (simp add: select_profile_def update_credits_def filter_credits_same single_map)

lemma select_profile_update_credits_other:
  "u' \<noteq> u \<Longrightarrow> select_profile (update_credits u v d) u' = select_profile d u'"
  by (simp add: select_profile_def update_credits_def filter_credits_other)

lemma balance_update_credits_same:
  "balance (update_credits u v d) u = map_option (\<lambda>_. v) (balance d u)"
  by (simp add: balance_def select_profile_update_credits_same option.map_comp comp_def)

lemma balance_update_credits_other:
  "u' \<noteq> u \<Longrightarrow> balance (update_credits u v d) u' = balance d u'"
  by (simp add: balance_def select_profile_update_credits_other)

lemma select_profile_update_session_completed:
  "select_profile (update_session_completed sid now tnotes lnotes d) u = select_profile d u"
  by (simp add: select_profile_def update_session_completed_def)

lemma balance_update_session_completed:
  "balance (update_session_completed sid now tnotes lnotes d) u = balance d u"
  by (simp add: balance_def select_profile_update_session_completed)

lemma balance_insert_credit_transaction:
  "balance (insert_credit_transaction row d) u = balance d u"
  by (simp add: balance_def select_profile_def insert_credit_transaction_def)

lemma filter_session_completed:
  "filter (\<lambda>s. s_id s = sid)
          (map (\<lambda>s. if s_id s = sid
                 then s\<lparr>s_status := Completed, s_completed_at := c,
                        s_tutor_notes := tnotes, s_learner_notes := lnotes\<rparr>
                 else s) ss)
   = map (\<lambda>s. s\<lparr>s_status := Completed, s_completed_at := c,
                 s_tutor_notes := tnotes, s_learner_notes := lnotes\<rparr>)
         (filter (\<lambda>s. s_id s = sid) ss)"
  by (induction ss) auto

lemma select_session_update_session_completed:
  "select_session (update_session_completed sid now tnotes lnotes d) sid
   = map_option (\<lambda>s. s\<lparr>s_status := Completed, s_completed_at := Some now,
                        s_tutor_notes := tnotes, s_learner_notes := lnotes\<rparr>)
       (select_session d sid)"
  by (simp add: select_session_def update_session_completed_def filter_session_completed
      single_map)


lemma balance_SomeD:
  "balance d u = Some b \<Longrightarrow> \<exists>p. select_profile d u = Some p \<and> p_credits p = b"
  by (auto simp: balance_def)

lemmas example_defs =
  alice_def bob_def carol_def dave_def human_session_def ai_session_def cancelled_session_def
  self_session_def completed_session_def orphan_session_def pending_request_def accepted_request_def demo_db_def
  call_def complete_body_def complete_env_ok_def complete_env_deduct_fails_def
  accept_env_ok_def accept_body_def send_env_ok_def send_body_def
  send_env_next_def alice_upper_def bob_upper_def

lemmas query_defs =
  single_def select_profile_def select_request_def select_session_def
  select_conversation_def balance_def

subsection \<open>The steps of complete-session\<close>

lemma complete_session_run:
  assumes "req_method req \<noteq> ''OPTIONS''" "req_authorization req = Some hdr"
      "req_user req = Some user" "req_body req = Some body"
      "cs_session_id body = Some sid" "sid \<noteq> []"
    and "select_session d sid = Some s" "s_status s \<noteq> Completed"
    and "s_tutor_id s = user \<or> s_learner_id s = user"
    and "select_profile d (s_learner_id s) = Some p" "creditCost s \<le> p_credits p"
    and "\<not> cs_update_session_fails env"
  shows "complete_session env req d
      = transfer_credits env sid s p [Log (''Completing session '' @ sid @ '' by user '' @ user)]
          (update_session_completed sid (cs_now env)
             (or_else (cs_tutor_notes body) (s_tutor_notes s))
             (or_else (cs_learner_notes body) (s_learner_notes s)) d)"
  using assms by (auto simp add: complete_session_def Let_def)

lemma transfer_credits_status:
  "out_status (transfer_credits env sid s p lines d1) = 200"
  "out_payload (transfer_credits env sid s p lines d1)
     = Success ''Session completed and credits transferred''"
  by (simp_all add: transfer_credits_def Let_def respond_def)

lemma transfer_credits_console:
  "out_console (transfer_credits env sid s p lines d1)
     = lines @ (if cs_deduct_fails env then [Err ''Failed to deduct credits:''] else [])
       @ [Log (''Session '' @ sid @ '' completed successfully. Credits transferred.'')]"
  by (simp add: transfer_credits_def Let_def respond_def)

lemma sessions_update_credits: "sessions (update_credits u v d) = sessions d"
  by (simp add: update_credits_def)

lemma sessions_insert_credit_transaction: "sessions (insert_credit_transaction row d) = sessions d"
  by (simp add: insert_credit_transaction_def)

lemma transfer_credits_sessions:
  "sessions (out_db (transfer_credits env sid s p lines d1)) = sessions d1"
  by (simp add: transfer_credits_def Let_def respond_def sessions_update_credits
      sessions_insert_credit_transaction split: option.splits)

lemma ledger_update_credits: "credit_transactions (update_credits u v d) = credit_transactions d"
  by (simp add: update_credits_def)

lemma ledger_insert_credit_transaction:
  "credit_transactions (insert_credit_transaction row d) = credit_transactions d @ [row]"
  by (simp add: insert_credit_transaction_def)

lemma transfer_credits_ledger:
  "credit_transactions (out_db (transfer_credits env sid s p lines d1))
     = credit_transactions d1
       @ (if cs_insert_learner_tx_fails env then [] else [learner_transaction s sid])
       @ (if isAiSession s \<or> cs_insert_tutor_tx_fails env then [] else [tutor_transaction s sid])"
  by (simp add: transfer_credits_def Let_def respond_def ledger_update_credits
      ledger_insert_credit_transaction split: option.splits)

lemma transfer_credits_balance:
  "balance (out_db (transfer_credits env sid s p lines d1)) u
     = balance
         (let d2 = (if cs_deduct_fails env then d1
                    else update_credits (s_learner_id s) (p_credits p - creditCost s) d1)
          in if isAiSession s then d2
             else case select_profile d2 (s_tutor_id s) of
                    None \<Rightarrow> d2
                  | Some tutorProfile \<Rightarrow>
                      if cs_credit_tutor_fails env then d2
                      else update_credits (s_tutor_id s) (p_credits tutorProfile + 1) d2) u"
  by (simp add: transfer_credits_def Let_def respond_def balance_insert_credit_transaction
      split: option.splits)

lemma select_session_transfer_credits:
  "select_session (out_db (transfer_credits env sid s p lines d1)) x = select_session d1 x"
  by (simp add: select_session_def transfer_credits_sessions)


lemma ledger_update_session_completed:
  "credit_transactions (update_session_completed sid now tnotes lnotes d) = credit_transactions d"
  by (simp add: update_session_completed_def)

lemma complete_session_already_completed:
  assumes "req_method req \<noteq> ''OPTIONS''" "req_authorization req = Some hdr"
      "req_user req = Some user" "req_body req = Some body"
      "cs_session_id body = Some sid" "sid \<noteq> []"
    and "select_session d sid = Some s"
    and "s_tutor_id s = user \<or> s_learner_id s = user"
    and "s_status s = Completed"
  shows "complete_session env req d
      = respond 400 (Error ''Session is already completed'')
          [Log (''Completing session '' @ sid @ '' by user '' @ user)] d"
  using assms by (auto simp add: complete_session_def Let_def)

lemma complete_session_not_completed_payload:
  assumes "req_method req \<noteq> ''OPTIONS''" "req_authorization req = Some hdr"
      "req_user req = Some user" "req_body req = Some body"
      "cs_session_id body = Some sid" "sid \<noteq> []"
    and "select_session d sid = Some s"
    and "s_tutor_id s = user \<or> s_learner_id s = user"
    and "s_status s \<noteq> Completed"
  shows "out_payload (complete_session env req d) \<noteq> Error ''Session is already completed''"
  using assms
  by (auto simp add: complete_session_def Let_def respond_def transfer_credits_status
      split: option.splits)

lemma select_session_completed_status:
  "select_session d sid = Some s \<Longrightarrow>
   map_option s_status (select_session (update_session_completed sid now tnotes lnotes d) sid)
     = Some Completed"
  by (simp add: select_session_update_session_completed)

subsection \<open>The steps of accept-request and send-request\<close>

lemma accept_request_not_pending_run:
  assumes "req_method req \<noteq> ''OPTIONS''" "req_authorization req = Some hdr"
      "req_user req = Some user" "req_body req = Some body"
      "ar_request_id body = Some rid"
    and "select_request d rid = Some r" "lr_tutor_id r = user" "lr_status r \<noteq> Pending"
  shows "accept_request env req d
      = respond 400
          (Error (if falsy (ar_request_id body) \<or> falsy (ar_scheduled_at body)
                  then ''request_id and scheduled_at are required''
                  else ''Request is no longer pending'')) [] d"
  using assms
  by (auto simp add: accept_request_def Let_def falsy_def split: option.splits)

lemma filter_request_status:
  "filter (\<lambda>r. lr_id r = rid)
          (map (\<lambda>r. if lr_id r = rid then r\<lparr>lr_status := st\<rparr> else r) rs)
   = map (\<lambda>r. r\<lparr>lr_status := st\<rparr>) (filter (\<lambda>r. lr_id r = rid) rs)"
  by (induction rs) auto

lemma select_request_update_request_status:
  "select_request (update_request_status rid st d) rid
   = map_option (\<lambda>r. r\<lparr>lr_status := st\<rparr>) (select_request d rid)"
  by (simp add: select_request_def update_request_status_def filter_request_status single_map)

lemma insert_session_SomeD:
  "insert_session row d = Some d' \<Longrightarrow> d' = d\<lparr>sessions := sessions d @ [row]\<rparr>"
  by (auto simp add: insert_session_def split: if_splits)

lemma notify_accepted_requests:
  "learning_requests (notify_accepted env user r sched d) = learning_requests d"
  by (simp add: notify_accepted_def Let_def insert_message_def update_last_message_at_def
      split: option.splits)

lemma notify_accepted_sessions:
  "sessions (notify_accepted env user r sched d) = sessions d"
  by (simp add: notify_accepted_def Let_def insert_message_def update_last_message_at_def
      split: option.splits)

lemma accept_request_pending_run:
  assumes "req_method req \<noteq> ''OPTIONS''" "req_authorization req = Some hdr"
      "req_user req = Some user" "req_body req = Some body"
      "ar_request_id body = Some rid" "rid \<noteq> []"
      "ar_scheduled_at body = Some sched" "sched \<noteq> []"
    and "select_request d rid = Some r" "lr_tutor_id r = user" "lr_status r = Pending"
    and "\<not> ar_update_request_fails env" "\<not> ar_insert_session_fails env"
      "ar_new_session_id env \<notin> set (map s_id (sessions d))"
  shows "accept_request env req d
      = respond 201 (Success_session (new_session env rid r sched (ar_duration_minutes body)))
          [Log (''Request '' @ rid @ '' accepted. Session '' @ ar_new_session_id env
                @ '' created.'')]
          (notify_accepted env user r sched
             ((update_request_status rid Accepted d)
                \<lparr>sessions := sessions d
                   @ [new_session env rid r sched (ar_duration_minutes body)]\<rparr>))"
  using assms
  by (simp add: accept_request_def Let_def falsy_def insert_session_def new_session_def
      update_request_status_def)

lemma insert_request_SomeD:
  "insert_request row d = Some d' \<Longrightarrow> d' = d\<lparr>learning_requests := learning_requests d @ [row]\<rparr>"
  by (auto simp add: insert_request_def split: if_splits)

lemma insert_conversation_SomeD:
  "insert_conversation row d = Some d' \<Longrightarrow> d' = d\<lparr>conversations := conversations d @ [row]\<rparr>"
  by (auto simp add: insert_conversation_def split: if_splits)

lemma create_or_get_conversation_profiles:
  "create_or_get_conversation env user tutor d1 = (cid, lines, d2) \<Longrightarrow> profiles d2 = profiles d1"
  by (auto simp add: create_or_get_conversation_def Let_def
      split: option.splits if_splits dest: insert_conversation_SomeD)

lemma send_initial_message_profiles:
  "profiles (send_initial_message env user msg cid d) = profiles d"
  by (simp add: send_initial_message_def Let_def insert_message_def update_last_message_at_def
      split: option.splits)

lemma send_request_profiles:
  "profiles (out_db (send_request env req d)) = profiles d"
  by (auto simp add: send_request_def Let_def respond_def send_initial_message_profiles
      split: option.splits prod.splits if_splits
      dest!: insert_request_SomeD create_or_get_conversation_profiles)

lemma send_request_insufficient_run:
  assumes "req_method req \<noteq> ''OPTIONS''" "req_authorization req = Some hdr"
      "req_user req = Some user" "req_body req = Some body"
    and "select_profile d user = Some p" "p_credits p < 1"
  shows "send_request env req d
      = respond 400
          (Error (if falsy (sr_tutor_id body) \<or> falsy (sr_message body)
                  then ''tutor_id and message are required''
                  else if sr_tutor_id body = Some user
                  then ''You cannot send a request to yourself''
                  else ''Insufficient credits to send a request'')) [] d"
  using assms
  by (auto simp add: send_request_def Let_def falsy_def split: option.splits)

lemma select_profile_absent:
  "uid \<notin> set (map p_user_id (profiles d)) \<Longrightarrow> select_profile d uid = None"
proof -
  assume "uid \<notin> set (map p_user_id (profiles d))"
  then have "filter (\<lambda>p. p_user_id p = uid) (profiles d) = []"
    by (auto simp add: filter_empty_conv)
  then show ?thesis by (simp add: select_profile_def single_def)
qed

lemma tutor_lookup_absent:
  assumes "\<forall>tid. sr_uuid_in env tutor = Some tid \<longrightarrow> tid \<notin> set (map p_user_id (profiles d))"
  shows "(case sr_uuid_in env tutor of None \<Rightarrow> None | Some tid \<Rightarrow> select_profile d tid) = None"
  using assms by (auto simp add: select_profile_absent split: option.splits)

lemma send_request_tutor_absent_db:
  assumes "req_body req = Some body" "sr_tutor_id body = Some tutor"
    and "\<forall>tid. sr_uuid_in env tutor = Some tid \<longrightarrow> tid \<notin> set (map p_user_id (profiles d))"
  shows "out_db (send_request env req d) = d"
  using assms(1,2) tutor_lookup_absent [OF assms(3)]
  by (auto simp add: send_request_def Let_def respond_def split: option.splits)

lemma send_request_tutor_absent_run:
  assumes "req_method req \<noteq> ''OPTIONS''" "req_authorization req = Some hdr"
      "req_user req = Some user" "req_body req = Some body"
      "sr_tutor_id body = Some tutor" "tutor \<noteq> []" "\<not> falsy (sr_message body)"
      "tutor \<noteq> user"
    and "select_profile d user = Some p" "1 \<le> p_credits p"
    and "\<forall>tid. sr_uuid_in env tutor = Some tid \<longrightarrow> tid \<notin> set (map p_user_id (profiles d))"
  shows "send_request env req d = respond 404 (Error ''Tutor not found'') [] d"
  using assms(1-10) tutor_lookup_absent [OF assms(11)]
  by (auto simp add: send_request_def Let_def falsy_def split: option.splits)

lemmas send_defs =
  send_request_def create_or_get_conversation_def send_initial_message_def new_request_def
  skill_unreadable_def insert_request_def insert_conversation_def insert_message_def
  update_last_message_at_def sortedIds_def respond_def falsy_def or_else_def Let_def

lemmas uuid_in_defs = uuid_in_def hex_digit_def lower_hex_def

lemma uuid_in_examples:
  "uuid_in alice = Some alice" "uuid_in bob = Some bob" "uuid_in dave = Some dave"
  "uuid_in alice_upper = Some alice" "uuid_in bob_upper = Some bob"
  "uuid_in ''nobody'' = None"
  by (simp_all add: uuid_in_defs alice_def bob_def dave_def alice_upper_def bob_upper_def)

lemma first_contact_eq:
  "first_contact =
     demo_db\<lparr>learning_requests := learning_requests demo_db @
        [\<lparr>lr_id = sr_new_request_id send_env_ok, lr_learner_id = alice, lr_tutor_id = bob,
          lr_skill_id = None, lr_message = Some ''Please teach me guitar'',
          lr_proposed_datetime = None, lr_status = Pending\<rparr>],
       conversations :=
        [\<lparr>c_id = sr_new_conversation_id send_env_ok, c_participant_1 = alice,
          c_participant_2 = bob, c_last_message_at = Some (sr_now send_env_ok)\<rparr>],
       messages :=
        [\<lparr>m_conversation_id = sr_new_conversation_id send_env_ok, m_sender_id = alice,
          m_content = books @ '' Learning Request: Please teach me guitar'',
          m_read_at = None\<rparr>]\<rparr>"
  by (simp add: first_contact_def example_defs query_defs send_defs uuid_in_defs)

section \<open>Completing an AI session\<close>

text \<open>
  Claim C2. Take a session whose \<^verbatim>\<open>is_ai_session\<close> flag is true and whose status is
  not completed, with a learner whose balance is at least 0.5, and a complete-session call by
  a participant that succeeds, none of the writes it issues failing. The call answers 200,
  lowers the learner's balance by exactly 0.5, leaves the balance of every other user, the
  tutor included, as it was, and appends exactly one row to \<^verbatim>\<open>credit_transactions\<close>:
  amount -0.5, type \<^verbatim>\<open>ai_session\<close>, referencing the session.
\<close>

theorem complete_ai_session:
  assumes call: "req_method req \<noteq> ''OPTIONS''" "req_authorization req = Some hdr"
      "req_user req = Some user" "req_body req = Some body"
      "cs_session_id body = Some sid" "sid \<noteq> []"
    and session: "select_session d sid = Some s" "s_is_ai_session s = Some True"
      "s_status s \<noteq> Completed"
    and participant: "s_tutor_id s = user \<or> s_learner_id s = user"
    and learner: "balance d (s_learner_id s) = Some b" "1 / 2 \<le> b"
    and writes: "\<not> cs_update_session_fails env" "\<not> cs_deduct_fails env"
      "\<not> cs_insert_learner_tx_fails env"
  shows "out_status (complete_session env req d) = 200
    \<and> balance (out_db (complete_session env req d)) (s_learner_id s) = Some (b - 1 / 2)
    \<and> (\<forall>u. u \<noteq> s_learner_id s \<longrightarrow>
          balance (out_db (complete_session env req d)) u = balance d u)
    \<and> credit_transactions (out_db (complete_session env req d))
        = credit_transactions d @
          [\<lparr>ct_user_id = s_learner_id s, ct_amount = - (1 / 2), ct_type = Ai_session,
            ct_session_id = Some sid, ct_description = Some ''AI Learning Session''\<rparr>]"
proof -
  from learner(1) obtain p where p: "select_profile d (s_learner_id s) = Some p" "p_credits p = b"
    using balance_SomeD by blast
  have ai: "isAiSession s" using session(2) by (simp add: isAiSession_def)
  have cost: "creditCost s = 1 / 2" using ai by (simp add: creditCost_def)
  let ?d1 = "update_session_completed sid (cs_now env)
               (or_else (cs_tutor_notes body) (s_tutor_notes s))
               (or_else (cs_learner_notes body) (s_learner_notes s)) d"
  have run: "complete_session env req d
      = transfer_credits env sid s p [Log (''Completing session '' @ sid @ '' by user '' @ user)] ?d1"
    using call session participant p learner(2) writes
    by (auto simp add: complete_session_def Let_def cost)
  have db: "out_db (complete_session env req d)
      = insert_credit_transaction (learner_transaction s sid)
          (update_credits (s_learner_id s) (b - 1 / 2) ?d1)"
    and st: "out_status (complete_session env req d) = 200"
    unfolding run using ai p writes
    by (simp_all add: transfer_credits_def Let_def respond_def cost)
  have bal: "balance (out_db (complete_session env req d)) (s_learner_id s) = Some (b - 1 / 2)"
    unfolding db using learner(1)
    by (simp add: balance_insert_credit_transaction balance_update_credits_same
        balance_update_session_completed)
  have others: "\<forall>u. u \<noteq> s_learner_id s \<longrightarrow>
      balance (out_db (complete_session env req d)) u = balance d u"
    unfolding db
    by (simp add: balance_insert_credit_transaction balance_update_credits_other
        balance_update_session_completed)
  have ledger: "credit_transactions (out_db (complete_session env req d))
        = credit_transactions d @
          [\<lparr>ct_user_id = s_learner_id s, ct_amount = - (1 / 2), ct_type = Ai_session,
            ct_session_id = Some sid, ct_description = Some ''AI Learning Session''\<rparr>]"
    unfolding db using ai
    by (simp add: insert_credit_transaction_def update_credits_def update_session_completed_def
        learner_transaction_def cost)
  from st bal others ledger show ?thesis by blast
qed

theorem complete_ai_session_witness:
  "select_session demo_db (s_id ai_session) = Some ai_session
   \<and> balance demo_db alice = Some 3
   \<and> out_status (complete_session complete_env_ok (call alice (complete_body ai_session)) demo_db)
       = 200
   \<and> balance (out_db (complete_session complete_env_ok (call alice (complete_body ai_session))
        demo_db)) alice = Some (5 / 2)
   \<and> balance (out_db (complete_session complete_env_ok (call alice (complete_body ai_session))
        demo_db)) bob = Some 3
   \<and> credit_transactions (out_db (complete_session complete_env_ok
        (call alice (complete_body ai_session)) demo_db))
       = [\<lparr>ct_user_id = alice, ct_amount = - (1 / 2), ct_type = Ai_session,
           ct_session_id = Some (s_id ai_session),
           ct_description = Some ''AI Learning Session''\<rparr>]"
proof -
  have sel: "select_session demo_db (s_id ai_session) = Some ai_session"
    by (simp add: example_defs query_defs)
  have bal: "balance demo_db alice = Some 3" "balance demo_db bob = Some 3"
    by (simp_all add: example_defs query_defs)
  have ne: "bob \<noteq> s_learner_id ai_session"
    by (simp add: example_defs)
  have ledger: "credit_transactions demo_db = []"
    by (simp add: demo_db_def)
  have "s_learner_id ai_session = alice" "s_tutor_id ai_session = bob"
    by (simp_all add: ai_session_def)
  with complete_ai_session [where req = "call alice (complete_body ai_session)"
      and hdr = "''Bearer token''" and user = alice and body = "complete_body ai_session"
      and sid = "s_id ai_session" and d = demo_db and s = ai_session and b = 3
      and env = complete_env_ok]
    sel bal ne ledger
  show ?thesis
    by (simp add: call_def complete_body_def complete_env_ok_def ai_session_def)
qed

section \<open>Completing a human session\<close>

text \<open>
  Claim C1, as the handler has it. Take a session that is not an AI session
  (\<^verbatim>\<open>is_ai_session\<close> false or NULL) and not completed, whose tutor is a different
  user from its learner and has a profile, with a learner whose balance is at least 1, and a
  complete-session call by a participant in which no write fails. The call answers 200,
  lowers the learner's balance by exactly 1, raises the tutor's by exactly 1, leaves every
  other balance as it was, and appends exactly two rows to \<^verbatim>\<open>credit_transactions\<close>,
  both referencing the session: amount -1 of type \<^verbatim>\<open>learning\<close> for the learner, then
  amount +1 of type \<^verbatim>\<open>teaching\<close> for the tutor.
\<close>

theorem complete_human_session:
  assumes call: "req_method req \<noteq> ''OPTIONS''" "req_authorization req = Some hdr"
      "req_user req = Some user" "req_body req = Some body"
      "cs_session_id body = Some sid" "sid \<noteq> []"
    and session: "select_session d sid = Some s" "s_is_ai_session s \<noteq> Some True"
      "s_status s \<noteq> Completed"
    and participant: "s_tutor_id s = user \<or> s_learner_id s = user"
    and distinct: "s_tutor_id s \<noteq> s_learner_id s"
    and learner: "balance d (s_learner_id s) = Some b" "1 \<le> b"
    and tutor: "balance d (s_tutor_id s) = Some t"
    and writes: "\<not> cs_update_session_fails env" "\<not> cs_deduct_fails env"
      "\<not> cs_credit_tutor_fails env" "\<not> cs_insert_learner_tx_fails env"
      "\<not> cs_insert_tutor_tx_fails env"
  shows "out_status (complete_session env req d) = 200
    \<and> balance (out_db (complete_session env req d)) (s_learner_id s) = Some (b - 1)
    \<and> balance (out_db (complete_session env req d)) (s_tutor_id s) = Some (t + 1)
    \<and> (\<forall>u. u \<noteq> s_learner_id s \<and> u \<noteq> s_tutor_id s \<longrightarrow>
          balance (out_db (complete_session env req d)) u = balance d u)
    \<and> credit_transactions (out_db (complete_session env req d))
        = credit_transactions d @
          [\<lparr>ct_user_id = s_learner_id s, ct_amount = - 1, ct_type = Learning,
            ct_session_id = Some sid, ct_description = Some ''Human tutoring session''\<rparr>,
           \<lparr>ct_user_id = s_tutor_id s, ct_amount = 1, ct_type = Teaching,
            ct_session_id = Some sid, ct_description = Some ''Teaching session completed''\<rparr>]"
proof -
  from learner(1) obtain p where p: "select_profile d (s_learner_id s) = Some p" "p_credits p = b"
    using balance_SomeD by blast
  from tutor obtain q where q: "select_profile d (s_tutor_id s) = Some q" "p_credits q = t"
    using balance_SomeD by blast
  have human: "\<not> isAiSession s" using session(2) by (simp add: isAiSession_def)
  have cost: "creditCost s = 1" using human by (simp add: creditCost_def)
  let ?d1 = "update_session_completed sid (cs_now env)
               (or_else (cs_tutor_notes body) (s_tutor_notes s))
               (or_else (cs_learner_notes body) (s_learner_notes s)) d"
  let ?r = "transfer_credits env sid s p
              [Log (''Completing session '' @ sid @ '' by user '' @ user)] ?d1"
  have run: "complete_session env req d = ?r"
    using call session(1,3) participant p learner(2) writes(1)
    by (intro complete_session_run) (simp_all add: cost)
  have q2: "select_profile (update_credits (s_learner_id s) (b - 1) ?d1) (s_tutor_id s) = Some q"
    using distinct q(1)
    by (simp add: select_profile_update_credits_other select_profile_update_session_completed)
  have bal: "balance (out_db (transfer_credits env sid s p lines ?d1)) u
      = balance (update_credits (s_tutor_id s) (t + 1)
                  (update_credits (s_learner_id s) (b - 1) ?d1)) u" for u lines
    using human writes p(2) q(2) q2
    by (simp add: transfer_credits_balance Let_def cost)
  have b1: "balance (out_db ?r) (s_learner_id s) = Some (b - 1)"
    unfolding bal using distinct learner(1)
    by (simp add: balance_update_credits_other balance_update_credits_same
        balance_update_session_completed)
  have b2: "balance (out_db ?r) (s_tutor_id s) = Some (t + 1)"
    unfolding bal using distinct tutor
    by (simp add: balance_update_credits_other balance_update_credits_same
        balance_update_session_completed)
  have b3: "\<forall>u. u \<noteq> s_learner_id s \<and> u \<noteq> s_tutor_id s \<longrightarrow> balance (out_db ?r) u = balance d u"
    unfolding bal
    by (simp add: balance_update_credits_other balance_update_session_completed)
  have ledger: "credit_transactions (out_db ?r)
        = credit_transactions d @
          [\<lparr>ct_user_id = s_learner_id s, ct_amount = - 1, ct_type = Learning,
            ct_session_id = Some sid, ct_description = Some ''Human tutoring session''\<rparr>,
           \<lparr>ct_user_id = s_tutor_id s, ct_amount = 1, ct_type = Teaching,
            ct_session_id = Some sid, ct_description = Some ''Teaching session completed''\<rparr>]"
    unfolding transfer_credits_ledger using human writes
    by (simp add: ledger_update_session_completed
        learner_transaction_def tutor_transaction_def cost)
  have st: "out_status (complete_session env req d) = 200"
    unfolding run by (rule transfer_credits_status)
  from st b1 b2 b3 ledger show ?thesis
    unfolding run by blast
qed


theorem complete_human_session_witness:
  "select_session demo_db (s_id human_session) = Some human_session
   \<and> balance demo_db alice = Some 3 \<and> balance demo_db bob = Some 3
   \<and> out_status (complete_session complete_env_ok (call bob (complete_body human_session))
        demo_db) = 200
   \<and> balance (out_db (complete_session complete_env_ok (call bob (complete_body human_session))
        demo_db)) alice = Some 2
   \<and> balance (out_db (complete_session complete_env_ok (call bob (complete_body human_session))
        demo_db)) bob = Some 4
   \<and> balance (out_db (complete_session complete_env_ok (call bob (complete_body human_session))
        demo_db)) carol = Some (1 / 2)
   \<and> credit_transactions (out_db (complete_session complete_env_ok
        (call bob (complete_body human_session)) demo_db))
       = [\<lparr>ct_user_id = alice, ct_amount = - 1, ct_type = Learning,
           ct_session_id = Some (s_id human_session),
           ct_description = Some ''Human tutoring session''\<rparr>,
          \<lparr>ct_user_id = bob, ct_amount = 1, ct_type = Teaching,
           ct_session_id = Some (s_id human_session),
           ct_description = Some ''Teaching session completed''\<rparr>]"
proof -
  have sel: "select_session demo_db (s_id human_session) = Some human_session"
    by (simp add: example_defs query_defs)
  have bal: "balance demo_db alice = Some 3" "balance demo_db bob = Some 3"
      "balance demo_db carol = Some (1 / 2)"
    by (simp_all add: example_defs query_defs)
  have ne: "bob \<noteq> alice" "carol \<noteq> alice" "carol \<noteq> bob"
    by (simp_all add: example_defs)
  have ledger: "credit_transactions demo_db = []"
    by (simp add: demo_db_def)
  have "s_learner_id human_session = alice" "s_tutor_id human_session = bob"
    by (simp_all add: human_session_def)
  with complete_human_session [where req = "call bob (complete_body human_session)"
      and hdr = "''Bearer token''" and user = bob and body = "complete_body human_session"
      and sid = "s_id human_session" and d = demo_db and s = human_session and b = 3
      and t = 3 and env = complete_env_ok]
    sel bal ne ledger
  show ?thesis
    by (simp add: call_def complete_body_def complete_env_ok_def human_session_def)
qed

text \<open>
  The claim without the provisos on the tutor fails. The \<^verbatim>\<open>sessions\<close> table does
  not keep a session's tutor and learner apart; where they are the same user, the handler
  writes the debited balance, reads it back as the tutor's and writes it plus 1: the
  balance ends where it began, neither 1 lower nor 1 higher. And where the tutor has no
  profile, the \<^verbatim>\<open>if (tutorProfile)\<close> guard skips the payment: no balance is raised,
  though the \<^verbatim>\<open>teaching\<close> row is appended all the same.
\<close>

theorem complete_self_session_counterexample:
  "select_session demo_db (s_id self_session) = Some self_session
   \<and> s_is_ai_session self_session = Some False
   \<and> s_status self_session \<noteq> Completed
   \<and> s_learner_id self_session = alice \<and> s_tutor_id self_session = alice
   \<and> balance demo_db alice = Some 3
   \<and> out_status (complete_session complete_env_ok (call alice (complete_body self_session))
        demo_db) = 200
   \<and> balance (out_db (complete_session complete_env_ok (call alice (complete_body self_session))
        demo_db)) alice = Some 3
   \<and> balance (out_db (complete_session complete_env_ok (call alice (complete_body self_session))
        demo_db)) alice \<noteq> Some (3 - 1)
   \<and> balance (out_db (complete_session complete_env_ok (call alice (complete_body self_session))
        demo_db)) alice \<noteq> Some (3 + 1)
   \<and> select_session demo_db (s_id orphan_session) = Some orphan_session
   \<and> s_is_ai_session orphan_session = Some False
   \<and> s_status orphan_session \<noteq> Completed
   \<and> s_learner_id orphan_session = alice \<and> s_tutor_id orphan_session = dave
   \<and> balance demo_db dave = None
   \<and> out_status (complete_session complete_env_ok (call alice (complete_body orphan_session))
        demo_db) = 200
   \<and> balance (out_db (complete_session complete_env_ok (call alice (complete_body orphan_session))
        demo_db)) dave = None
   \<and> credit_transactions (out_db (complete_session complete_env_ok
        (call alice (complete_body orphan_session)) demo_db))
       = [\<lparr>ct_user_id = alice, ct_amount = - 1, ct_type = Learning,
           ct_session_id = Some (s_id orphan_session),
           ct_description = Some ''Human tutoring session''\<rparr>,
          \<lparr>ct_user_id = dave, ct_amount = 1, ct_type = Teaching,
           ct_session_id = Some (s_id orphan_session),
           ct_description = Some ''Teaching session completed''\<rparr>]"
  by (simp add: example_defs query_defs complete_session_def transfer_credits_def Let_def
      learner_transaction_def tutor_transaction_def
      respond_def isAiSession_def creditCost_def update_credits_def update_session_completed_def
      insert_credit_transaction_def or_else_def falsy_def)

section \<open>A failed deduction is not rolled back\<close>

text \<open>
  Claim C6. When the write that deducts the learner's credits fails, after the session has
  been marked completed, the handler logs the failure and goes on: it answers 200 with its
  success message, the session is in status completed, the ledger rows are appended as the
  inserts allow, and the deduction is missing from the learner's balance (which is even 1
  higher when the learner is also the tutor of a human session and the tutor is paid).
\<close>

theorem deduct_failure_not_rolled_back:
  assumes call: "req_method req \<noteq> ''OPTIONS''" "req_authorization req = Some hdr"
      "req_user req = Some user" "req_body req = Some body"
      "cs_session_id body = Some sid" "sid \<noteq> []"
    and session: "select_session d sid = Some s" "s_status s \<noteq> Completed"
    and participant: "s_tutor_id s = user \<or> s_learner_id s = user"
    and learner: "balance d (s_learner_id s) = Some b" "creditCost s \<le> b"
    and writes: "\<not> cs_update_session_fails env" "cs_deduct_fails env"
  shows "out_status (complete_session env req d) = 200
    \<and> out_payload (complete_session env req d)
        = Success ''Session completed and credits transferred''
    \<and> out_console (complete_session env req d)
        = [Log (''Completing session '' @ sid @ '' by user '' @ user),
           Err ''Failed to deduct credits:'',
           Log (''Session '' @ sid @ '' completed successfully. Credits transferred.'')]
    \<and> map_option s_status (select_session (out_db (complete_session env req d)) sid)
        = Some Completed
    \<and> balance (out_db (complete_session env req d)) (s_learner_id s)
        = Some (if \<not> isAiSession s \<and> s_tutor_id s = s_learner_id s
                   \<and> \<not> cs_credit_tutor_fails env then b + 1 else b)
    \<and> credit_transactions (out_db (complete_session env req d))
        = credit_transactions d
          @ (if cs_insert_learner_tx_fails env then [] else [learner_transaction s sid])
          @ (if isAiSession s \<or> cs_insert_tutor_tx_fails env then []
             else [tutor_transaction s sid])"
proof -
  from learner(1) obtain p where p: "select_profile d (s_learner_id s) = Some p" "p_credits p = b"
    using balance_SomeD by blast
  let ?d1 = "update_session_completed sid (cs_now env)
               (or_else (cs_tutor_notes body) (s_tutor_notes s))
               (or_else (cs_learner_notes body) (s_learner_notes s)) d"
  let ?r = "transfer_credits env sid s p
              [Log (''Completing session '' @ sid @ '' by user '' @ user)] ?d1"
  have run: "complete_session env req d = ?r"
    using call session participant p learner(2) writes(1)
    by (intro complete_session_run) simp_all
  have st: "out_status ?r = 200"
    and pl: "out_payload ?r = Success ''Session completed and credits transferred''"
    by (rule transfer_credits_status)+
  have con: "out_console ?r
        = [Log (''Completing session '' @ sid @ '' by user '' @ user),
           Err ''Failed to deduct credits:'',
           Log (''Session '' @ sid @ '' completed successfully. Credits transferred.'')]"
    unfolding transfer_credits_console using writes(2) by simp
  have marked: "map_option s_status (select_session (out_db ?r) sid) = Some Completed"
    unfolding select_session_transfer_credits using session(1)
    by (rule select_session_completed_status)
  have p1: "select_profile ?d1 (s_learner_id s) = Some p"
    using p(1) by (simp add: select_profile_update_session_completed)
  have bal: "balance (out_db ?r) (s_learner_id s)
        = Some (if \<not> isAiSession s \<and> s_tutor_id s = s_learner_id s
                   \<and> \<not> cs_credit_tutor_fails env then b + 1 else b)"
  proof (cases "s_tutor_id s = s_learner_id s")
    case True
    then show ?thesis
      unfolding transfer_credits_balance using writes(2) p p1 learner(1)
      by (simp add: Let_def balance_update_credits_same balance_update_session_completed)
  next
    case False
    then show ?thesis
      unfolding transfer_credits_balance using writes(2) learner(1)
      by (simp add: Let_def balance_update_credits_other balance_update_session_completed
          split: option.splits)
  qed
  have ledger: "credit_transactions (out_db ?r)
        = credit_transactions d
          @ (if cs_insert_learner_tx_fails env then [] else [learner_transaction s sid])
          @ (if isAiSession s \<or> cs_insert_tutor_tx_fails env then []
             else [tutor_transaction s sid])"
    unfolding transfer_credits_ledger by (simp add: ledger_update_session_completed)
  from st pl con marked bal ledger show ?thesis
    unfolding run by blast
qed

theorem deduct_failure_not_rolled_back_witness:
  "select_session demo_db (s_id human_session) = Some human_session
   \<and> balance demo_db alice = Some 3
   \<and> cs_deduct_fails complete_env_deduct_fails
   \<and> out_status (complete_session complete_env_deduct_fails
        (call bob (complete_body human_session)) demo_db) = 200
   \<and> out_payload (complete_session complete_env_deduct_fails
        (call bob (complete_body human_session)) demo_db)
       = Success ''Session completed and credits transferred''
   \<and> Err ''Failed to deduct credits:''
       \<in> set (out_console (complete_session complete_env_deduct_fails
                (call bob (complete_body human_session)) demo_db))
   \<and> map_option s_status (select_session (out_db (complete_session complete_env_deduct_fails
        (call bob (complete_body human_session)) demo_db)) (s_id human_session)) = Some Completed
   \<and> balance (out_db (complete_session complete_env_deduct_fails
        (call bob (complete_body human_session)) demo_db)) alice = Some 3
   \<and> credit_transactions (out_db (complete_session complete_env_deduct_fails
        (call bob (complete_body human_session)) demo_db))
       = [\<lparr>ct_user_id = alice, ct_amount = - 1, ct_type = Learning,
           ct_session_id = Some (s_id human_session),
           ct_description = Some ''Human tutoring session''\<rparr>,
          \<lparr>ct_user_id = bob, ct_amount = 1, ct_type = Teaching,
           ct_session_id = Some (s_id human_session),
           ct_description = Some ''Teaching session completed''\<rparr>]"
proof -
  have sel: "select_session demo_db (s_id human_session) = Some human_session"
    by (simp add: example_defs query_defs)
  have bal: "balance demo_db alice = Some 3"
    by (simp add: example_defs query_defs)
  have ne: "bob \<noteq> alice"
    by (simp add: example_defs)
  have ledger: "credit_transactions demo_db = []"
    by (simp add: demo_db_def)
  have row: "s_learner_id human_session = alice" "s_tutor_id human_session = bob"
      "s_status human_session = Scheduled" "\<not> isAiSession human_session"
      "creditCost human_session = 1"
    by (simp_all add: human_session_def isAiSession_def creditCost_def)
  from deduct_failure_not_rolled_back [where req = "call bob (complete_body human_session)"
      and hdr = "''Bearer token''" and user = bob and body = "complete_body human_session"
      and sid = "s_id human_session" and d = demo_db and s = human_session and b = 3
      and env = complete_env_deduct_fails]
    sel bal ne ledger row
  show ?thesis
    by (simp add: call_def complete_body_def complete_env_ok_def complete_env_deduct_fails_def
  accept_env_ok_def accept_body_def send_env_ok_def send_body_def
  send_env_next_def alice_upper_def bob_upper_def
        human_session_def learner_transaction_def tutor_transaction_def)
qed

section \<open>The already-completed check\<close>

text \<open>
  Claim C10. For a call by a participant of an existing session, complete-session answers
  "Session is already completed" exactly when the session's status is completed, with
  status 400 and no change to the store. In every other status, cancelled and in progress
  included, with a learner who can pay and no write failing, it answers 200, marks the
  session completed, charges the learner (who gets the credit back only as the tutor of
  the same human session) and appends the ledger rows.
\<close>

theorem already_completed_gate:
  assumes call: "req_method req \<noteq> ''OPTIONS''" "req_authorization req = Some hdr"
      "req_user req = Some user" "req_body req = Some body"
      "cs_session_id body = Some sid" "sid \<noteq> []"
    and session: "select_session d sid = Some s"
    and participant: "s_tutor_id s = user \<or> s_learner_id s = user"
  shows "((out_payload (complete_session env req d) = Error ''Session is already completed'')
            = (s_status s = Completed))
    \<and> (s_status s = Completed \<longrightarrow>
          out_status (complete_session env req d) = 400
          \<and> out_db (complete_session env req d) = d)
    \<and> (s_status s \<noteq> Completed \<and> balance d (s_learner_id s) = Some b \<and> creditCost s \<le> b
        \<and> \<not> cs_update_session_fails env \<and> \<not> cs_deduct_fails env
        \<and> \<not> cs_credit_tutor_fails env \<and> \<not> cs_insert_learner_tx_fails env
        \<and> \<not> cs_insert_tutor_tx_fails env \<longrightarrow>
          out_status (complete_session env req d) = 200
          \<and> map_option s_status (select_session (out_db (complete_session env req d)) sid)
              = Some Completed
          \<and> balance (out_db (complete_session env req d)) (s_learner_id s)
              = Some (b - creditCost s
                      + (if \<not> isAiSession s \<and> s_tutor_id s = s_learner_id s then 1 else 0))
          \<and> credit_transactions (out_db (complete_session env req d))
              = credit_transactions d @ [learner_transaction s sid]
                @ (if isAiSession s then [] else [tutor_transaction s sid]))"
proof -
  have gate: "(out_payload (complete_session env req d) = Error ''Session is already completed'')
            = (s_status s = Completed)"
  proof (cases "s_status s = Completed")
    case True
    with complete_session_already_completed [OF call session participant True]
    show ?thesis by (simp add: respond_def)
  next
    case False
    with complete_session_not_completed_payload [OF call session participant False]
    show ?thesis by simp
  qed
  have rejected: "out_status (complete_session env req d) = 400
          \<and> out_db (complete_session env req d) = d" if "s_status s = Completed"
    using complete_session_already_completed [OF call session participant that]
    by (simp add: respond_def)
  have proceeds: "out_status (complete_session env req d) = 200
          \<and> map_option s_status (select_session (out_db (complete_session env req d)) sid)
              = Some Completed
          \<and> balance (out_db (complete_session env req d)) (s_learner_id s)
              = Some (b - creditCost s
                      + (if \<not> isAiSession s \<and> s_tutor_id s = s_learner_id s then 1 else 0))
          \<and> credit_transactions (out_db (complete_session env req d))
              = credit_transactions d @ [learner_transaction s sid]
                @ (if isAiSession s then [] else [tutor_transaction s sid])"
    if unfinished: "s_status s \<noteq> Completed"
      and learner: "balance d (s_learner_id s) = Some b" "creditCost s \<le> b"
      and writes: "\<not> cs_update_session_fails env" "\<not> cs_deduct_fails env"
        "\<not> cs_credit_tutor_fails env" "\<not> cs_insert_learner_tx_fails env"
        "\<not> cs_insert_tutor_tx_fails env"
  proof -
    from learner(1) obtain p where p: "select_profile d (s_learner_id s) = Some p" "p_credits p = b"
      using balance_SomeD by blast
    let ?d1 = "update_session_completed sid (cs_now env)
                 (or_else (cs_tutor_notes body) (s_tutor_notes s))
                 (or_else (cs_learner_notes body) (s_learner_notes s)) d"
    let ?r = "transfer_credits env sid s p
                [Log (''Completing session '' @ sid @ '' by user '' @ user)] ?d1"
    have run: "complete_session env req d = ?r"
      using call session unfinished participant p learner(2) writes(1)
      by (intro complete_session_run) simp_all
    have st: "out_status ?r = 200"
      by (rule transfer_credits_status)
    have marked: "map_option s_status (select_session (out_db ?r) sid) = Some Completed"
      unfolding select_session_transfer_credits using session
      by (rule select_session_completed_status)
    have bal: "balance (out_db ?r) (s_learner_id s)
          = Some (b - creditCost s
                  + (if \<not> isAiSession s \<and> s_tutor_id s = s_learner_id s then 1 else 0))"
    proof (cases "s_tutor_id s = s_learner_id s")
      case True
      then show ?thesis
        unfolding transfer_credits_balance using writes p learner(1)
        by (simp add: Let_def balance_update_credits_same balance_update_session_completed
            select_profile_update_credits_same select_profile_update_session_completed)
    next
      case False
      then show ?thesis
        unfolding transfer_credits_balance using writes p learner(1)
        by (simp add: Let_def balance_update_credits_other balance_update_credits_same
            balance_update_session_completed split: option.splits)
    qed
    have ledger: "credit_transactions (out_db ?r)
          = credit_transactions d @ [learner_transaction s sid]
            @ (if isAiSession s then [] else [tutor_transaction s sid])"
      unfolding transfer_credits_ledger using writes
      by (simp add: ledger_update_session_completed)
    from st marked bal ledger show ?thesis
      unfolding run by blast
  qed
  from gate rejected proceeds show ?thesis by blast
qed

theorem already_completed_gate_witness:
  "s_status cancelled_session = Cancelled
   \<and> out_payload (complete_session complete_env_ok (call alice (complete_body cancelled_session))
        demo_db) \<noteq> Error ''Session is already completed''
   \<and> out_status (complete_session complete_env_ok (call alice (complete_body cancelled_session))
        demo_db) = 200
   \<and> map_option s_status (select_session (out_db (complete_session complete_env_ok
        (call alice (complete_body cancelled_session)) demo_db)) (s_id cancelled_session))
       = Some Completed
   \<and> balance (out_db (complete_session complete_env_ok
        (call alice (complete_body cancelled_session)) demo_db)) alice = Some 2
   \<and> credit_transactions (out_db (complete_session complete_env_ok
        (call alice (complete_body cancelled_session)) demo_db))
       = [\<lparr>ct_user_id = alice, ct_amount = - 1, ct_type = Learning,
           ct_session_id = Some (s_id cancelled_session),
           ct_description = Some ''Human tutoring session''\<rparr>,
          \<lparr>ct_user_id = bob, ct_amount = 1, ct_type = Teaching,
           ct_session_id = Some (s_id cancelled_session),
           ct_description = Some ''Teaching session completed''\<rparr>]
   \<and> s_status completed_session = Completed
   \<and> out_payload (complete_session complete_env_ok (call alice (complete_body completed_session))
        demo_db) = Error ''Session is already completed''
   \<and> out_status (complete_session complete_env_ok (call alice (complete_body completed_session))
        demo_db) = 400
   \<and> out_db (complete_session complete_env_ok (call alice (complete_body completed_session))
        demo_db) = demo_db"
proof -
  have sel: "select_session demo_db (s_id cancelled_session) = Some cancelled_session"
      "select_session demo_db (s_id completed_session) = Some completed_session"
    by (simp_all add: example_defs query_defs)
  have bal: "balance demo_db alice = Some 3"
    by (simp add: example_defs query_defs)
  have ne: "bob \<noteq> alice"
    by (simp add: example_defs)
  have ledger: "credit_transactions demo_db = []"
    by (simp add: demo_db_def)
  have row: "s_learner_id cancelled_session = alice" "s_tutor_id cancelled_session = bob"
      "s_status cancelled_session = Cancelled" "\<not> isAiSession cancelled_session"
      "creditCost cancelled_session = 1"
      "s_learner_id completed_session = alice" "s_status completed_session = Completed"
    by (simp_all add: cancelled_session_def completed_session_def isAiSession_def creditCost_def)
  from already_completed_gate [where req = "call alice (complete_body cancelled_session)"
      and hdr = "''Bearer token''" and user = alice and body = "complete_body cancelled_session"
      and sid = "s_id cancelled_session" and d = demo_db and s = cancelled_session and b = 3
      and env = complete_env_ok]
    already_completed_gate [where req = "call alice (complete_body completed_session)"
      and hdr = "''Bearer token''" and user = alice and body = "complete_body completed_session"
      and sid = "s_id completed_session" and d = demo_db and s = completed_session and b = 3
      and env = complete_env_ok]
    sel bal ne ledger row
  show ?thesis
    by (simp add: call_def complete_body_def complete_env_ok_def
        cancelled_session_def completed_session_def learner_transaction_def
        tutor_transaction_def)
qed

section \<open>Accepting a request that is no longer pending\<close>

text \<open>
  Claim C3. For a learning request whose status is not pending (accepted, rejected or
  cancelled), an accept-request call by its tutor fails with status 400 and changes nothing
  in the store: the request, the sessions, the conversations and the messages are as
  before. The error is "Request is no longer pending" whenever the body carries both
  required fields; a body without \<^verbatim>\<open>scheduled_at\<close> is turned away one check earlier,
  also with 400.
\<close>

theorem accept_not_pending:
  assumes call: "req_method req \<noteq> ''OPTIONS''" "req_authorization req = Some hdr"
      "req_user req = Some user" "req_body req = Some body"
      "ar_request_id body = Some rid"
    and request: "select_request d rid = Some r" "lr_status r \<noteq> Pending"
    and tutor: "lr_tutor_id r = user"
  shows "out_status (accept_request env req d) = 400
    \<and> out_payload (accept_request env req d)
        = Error (if falsy (ar_request_id body) \<or> falsy (ar_scheduled_at body)
                 then ''request_id and scheduled_at are required''
                 else ''Request is no longer pending'')
    \<and> out_db (accept_request env req d) = d"
  unfolding accept_request_not_pending_run [OF call request(1) tutor request(2)]
  by (simp add: respond_def)

theorem accept_not_pending_witness:
  "select_request demo_db (lr_id accepted_request) = Some accepted_request
   \<and> lr_status accepted_request = Accepted \<and> lr_tutor_id accepted_request = bob
   \<and> out_status (accept_request accept_env_ok (call bob (accept_body accepted_request)) demo_db)
       = 400
   \<and> out_payload (accept_request accept_env_ok (call bob (accept_body accepted_request)) demo_db)
       = Error ''Request is no longer pending''
   \<and> out_db (accept_request accept_env_ok (call bob (accept_body accepted_request)) demo_db)
       = demo_db"
proof -
  have sel: "select_request demo_db (lr_id accepted_request) = Some accepted_request"
    by (simp add: example_defs query_defs)
  have row: "lr_status accepted_request = Accepted" "lr_tutor_id accepted_request = bob"
    by (simp_all add: accepted_request_def)
  from accept_not_pending [where req = "call bob (accept_body accepted_request)"
      and hdr = "''Bearer token''" and user = bob and body = "accept_body accepted_request"
      and rid = "lr_id accepted_request" and d = demo_db and r = accepted_request
      and env = accept_env_ok]
    sel row
  show ?thesis
    by (simp add: call_def accept_body_def falsy_def accepted_request_def)
qed

text \<open>
  Hence a request is not accepted twice: once a call has accepted it, its status write
  having gone through, every further call for it by the tutor gets the 400 answer and
  leaves the store as the first call left it.
\<close>

lemma accept_request_twice:
  assumes first: "req_method req \<noteq> ''OPTIONS''" "req_authorization req = Some hdr"
      "req_user req = Some user" "req_body req = Some body"
      "ar_request_id body = Some rid" "rid \<noteq> []"
      "ar_scheduled_at body = Some sched" "sched \<noteq> []"
    and request: "select_request d rid = Some r" "lr_tutor_id r = user" "lr_status r = Pending"
    and writes: "\<not> ar_update_request_fails env" "\<not> ar_insert_session_fails env"
      "ar_new_session_id env \<notin> set (map s_id (sessions d))"
    and second: "req_method req' \<noteq> ''OPTIONS''" "req_authorization req' = Some hdr'"
      "req_user req' = Some user" "req_body req' = Some body'"
      "ar_request_id body' = Some rid" "ar_scheduled_at body' = Some sched'" "sched' \<noteq> []"
  shows "out_status (accept_request env req d) = 201
    \<and> out_status (accept_request env' req' (out_db (accept_request env req d))) = 400
    \<and> out_payload (accept_request env' req' (out_db (accept_request env req d)))
        = Error ''Request is no longer pending''
    \<and> out_db (accept_request env' req' (out_db (accept_request env req d)))
        = out_db (accept_request env req d)"
proof -
  let ?d1 = "out_db (accept_request env req d)"
  note run = accept_request_pending_run [OF first request writes]
  have reqs: "learning_requests ?d1 = learning_requests (update_request_status rid Accepted d)"
    unfolding run by (simp add: respond_def notify_accepted_requests)
  have sel: "select_request ?d1 rid = Some (r\<lparr>lr_status := Accepted\<rparr>)"
    using request(1) select_request_update_request_status [of rid Accepted d]
    by (simp add: select_request_def reqs)
  have st: "out_status (accept_request env req d) = 201"
    unfolding run by (simp add: respond_def)
  have "accept_request env' req' ?d1
      = respond 400
          (Error (if falsy (ar_request_id body') \<or> falsy (ar_scheduled_at body')
                  then ''request_id and scheduled_at are required''
                  else ''Request is no longer pending'')) [] ?d1"
    using request(2)
    by (intro accept_request_not_pending_run [OF second(1-5) sel]) simp_all
  with st second first(6) show ?thesis
    by (simp add: respond_def falsy_def)
qed

section \<open>Accepting a pending request\<close>

text \<open>
  Claim C7. For a learning request in status pending, an accept-request call by its tutor
  that succeeds, none of its writes failing and the new session's id being fresh, answers
  201, sets the request's status to accepted and leaves every other request as it was, and
  appends exactly one session: linked to the request through \<^verbatim>\<open>request_id\<close>, with
  \<^verbatim>\<open>tutor_id\<close>, \<^verbatim>\<open>learner_id\<close> and \<^verbatim>\<open>skill_id\<close> copied from it, in status
  scheduled. The response carries that session.
\<close>

theorem accept_pending_creates_session:
  assumes call: "req_method req \<noteq> ''OPTIONS''" "req_authorization req = Some hdr"
      "req_user req = Some user" "req_body req = Some body"
      "ar_request_id body = Some rid" "rid \<noteq> []"
      "ar_scheduled_at body = Some sched" "sched \<noteq> []"
    and request: "select_request d rid = Some r" "lr_status r = Pending"
    and tutor: "lr_tutor_id r = user"
    and writes: "\<not> ar_update_request_fails env" "\<not> ar_insert_session_fails env"
      "ar_new_session_id env \<notin> set (map s_id (sessions d))"
  shows "out_status (accept_request env req d) = 201
    \<and> select_request (out_db (accept_request env req d)) rid = Some (r\<lparr>lr_status := Accepted\<rparr>)
    \<and> learning_requests (out_db (accept_request env req d))
        = map (\<lambda>x. if lr_id x = rid then x\<lparr>lr_status := Accepted\<rparr> else x)
            (learning_requests d)
    \<and> sessions (out_db (accept_request env req d))
        = sessions d @
          [\<lparr>s_id = ar_new_session_id env, s_request_id = Some rid,
            s_tutor_id = lr_tutor_id r, s_learner_id = lr_learner_id r,
            s_skill_id = lr_skill_id r, s_scheduled_at = sched,
            s_duration_minutes = (case ar_duration_minutes body of None \<Rightarrow> 60 | Some m \<Rightarrow> m),
            s_status = Scheduled, s_tutor_notes = None, s_learner_notes = None,
            s_is_ai_session = Some False, s_completed_at = None\<rparr>]
    \<and> out_payload (accept_request env req d)
        = Success_session (last (sessions (out_db (accept_request env req d))))"
proof -
  let ?row = "new_session env rid r sched (ar_duration_minutes body)"
  let ?d2 = "(update_request_status rid Accepted d)\<lparr>sessions := sessions d @ [?row]\<rparr>"
  have run: "accept_request env req d
      = respond 201 (Success_session ?row)
          [Log (''Request '' @ rid @ '' accepted. Session '' @ ar_new_session_id env
                @ '' created.'')]
          (notify_accepted env user r sched ?d2)"
    using call request(1) tutor request(2) writes by (rule accept_request_pending_run)
  have reqs: "learning_requests (out_db (accept_request env req d))
      = learning_requests (update_request_status rid Accepted d)"
    unfolding run by (simp add: respond_def notify_accepted_requests)
  have sel: "select_request (out_db (accept_request env req d)) rid
      = Some (r\<lparr>lr_status := Accepted\<rparr>)"
    using request(1) select_request_update_request_status [of rid Accepted d]
    by (simp add: select_request_def reqs)
  have tab: "learning_requests (out_db (accept_request env req d))
        = map (\<lambda>x. if lr_id x = rid then x\<lparr>lr_status := Accepted\<rparr> else x)
            (learning_requests d)"
    unfolding reqs by (simp add: update_request_status_def)
  have ses: "sessions (out_db (accept_request env req d)) = sessions d @ [?row]"
    unfolding run by (simp add: respond_def notify_accepted_sessions)
  have st: "out_status (accept_request env req d) = 201"
    and pl: "out_payload (accept_request env req d) = Success_session ?row"
    unfolding run by (simp_all add: respond_def)
  from st sel tab ses pl show ?thesis
    by (simp add: new_session_def)
qed

theorem accept_pending_creates_session_witness:
  "select_request demo_db (lr_id pending_request) = Some pending_request
   \<and> lr_status pending_request = Pending \<and> lr_tutor_id pending_request = bob
   \<and> out_status (accept_request accept_env_ok (call bob (accept_body pending_request)) demo_db)
       = 201
   \<and> select_request
        (out_db (accept_request accept_env_ok (call bob (accept_body pending_request)) demo_db))
        (lr_id pending_request)
       = Some (pending_request\<lparr>lr_status := Accepted\<rparr>)
   \<and> sessions
        (out_db (accept_request accept_env_ok (call bob (accept_body pending_request)) demo_db))
       = sessions demo_db @
         [\<lparr>s_id = ''50000000-0000-4000-8000-000000000009'',
           s_request_id = Some (lr_id pending_request),
           s_tutor_id = bob, s_learner_id = alice, s_skill_id = None,
           s_scheduled_at = ''2026-03-10T10:00:00Z'', s_duration_minutes = 60,
           s_status = Scheduled, s_tutor_notes = None, s_learner_notes = None,
           s_is_ai_session = Some False, s_completed_at = None\<rparr>]"
proof -
  have sel: "select_request demo_db (lr_id pending_request) = Some pending_request"
    by (simp add: example_defs query_defs)
  have row: "lr_status pending_request = Pending" "lr_tutor_id pending_request = bob"
      "lr_learner_id pending_request = alice" "lr_skill_id pending_request = None"
      "lr_id pending_request \<noteq> []"
    by (simp_all add: pending_request_def)
  have fresh: "ar_new_session_id accept_env_ok \<notin> set (map s_id (sessions demo_db))"
    by (simp add: example_defs accept_env_ok_def)
  from accept_pending_creates_session [where req = "call bob (accept_body pending_request)"
      and hdr = "''Bearer token''" and user = bob and body = "accept_body pending_request"
      and rid = "lr_id pending_request" and d = demo_db and r = pending_request
      and sched = "''2026-03-10T10:00:00Z''" and env = accept_env_ok]
    sel row fresh
  show ?thesis
    by (simp add: call_def accept_body_def accept_env_ok_def)
qed

section \<open>Sending a request without credits\<close>

text \<open>
  Claim C4. For a caller whose profile holds less than 1 credit, a send-request call is
  rejected with status 400 before any row is created: the store is unchanged, so no
  learning request, conversation or message is inserted. The error is "Insufficient
  credits to send a request" unless one of the two earlier checks (required fields,
  request to oneself) has already turned the call away, also with 400.
\<close>

theorem send_insufficient_credits_rejected:
  assumes call: "req_method req \<noteq> ''OPTIONS''" "req_authorization req = Some hdr"
      "req_user req = Some user" "req_body req = Some body"
    and learner: "balance d user = Some b" "b < 1"
  shows "out_status (send_request env req d) = 400
    \<and> out_payload (send_request env req d)
        = Error (if falsy (sr_tutor_id body) \<or> falsy (sr_message body)
                 then ''tutor_id and message are required''
                 else if sr_tutor_id body = Some user
                 then ''You cannot send a request to yourself''
                 else ''Insufficient credits to send a request'')
    \<and> out_db (send_request env req d) = d"
proof -
  from learner(1) obtain p where p: "select_profile d user = Some p" "p_credits p = b"
    using balance_SomeD by blast
  from p(2) learner(2) have "p_credits p < 1" by simp
  from send_request_insufficient_run [OF call p(1) this]
  show ?thesis by (simp add: respond_def)
qed

theorem send_insufficient_credits_rejected_witness:
  "balance demo_db carol = Some (1 / 2)
   \<and> out_status (send_request send_env_ok (call carol (send_body bob)) demo_db) = 400
   \<and> out_payload (send_request send_env_ok (call carol (send_body bob)) demo_db)
       = Error ''Insufficient credits to send a request''
   \<and> out_db (send_request send_env_ok (call carol (send_body bob)) demo_db) = demo_db"
proof -
  have bal: "balance demo_db carol = Some (1 / 2)"
    by (simp add: example_defs query_defs)
  have ne: "bob \<noteq> carol" "bob \<noteq> []"
    by (simp_all add: example_defs)
  from send_insufficient_credits_rejected [where req = "call carol (send_body bob)"
      and hdr = "''Bearer token''" and user = carol and body = "send_body bob"
      and env = send_env_ok and d = demo_db and b = "1 / 2"]
    bal ne
  show ?thesis
    by (simp add: call_def send_body_def falsy_def)
qed

section \<open>What send-request leaves alone\<close>

text \<open>
  Claim C8. A send-request call, successful or not, leaves the \<^verbatim>\<open>profiles\<close> table
  and so every credit balance unchanged: the learner's balance is checked, nothing is
  deducted. When the named tutor has no existing profile, that is when the store reads no
  uuid from the body's \<^verbatim>\<open>tutor_id\<close> or reads one that no profile has, no row is
  inserted, and a call that has passed the earlier checks (fields present, string distinct
  from the caller's id, caller's balance at least 1) fails with 404 "Tutor not found".
\<close>

theorem send_request_frame:
  "profiles (out_db (send_request env req d)) = profiles d
   \<and> (\<forall>u. balance (out_db (send_request env req d)) u = balance d u)
   \<and> (req_body req = Some body \<and> sr_tutor_id body = Some tutor
        \<and> (\<forall>tid. sr_uuid_in env tutor = Some tid \<longrightarrow> tid \<notin> set (map p_user_id (profiles d)))
        \<longrightarrow> out_db (send_request env req d) = d)
   \<and> (req_method req \<noteq> ''OPTIONS'' \<and> req_authorization req = Some hdr
        \<and> req_user req = Some user \<and> req_body req = Some body
        \<and> sr_tutor_id body = Some tutor \<and> tutor \<noteq> [] \<and> \<not> falsy (sr_message body)
        \<and> tutor \<noteq> user \<and> balance d user = Some b \<and> 1 \<le> b
        \<and> (\<forall>tid. sr_uuid_in env tutor = Some tid \<longrightarrow> tid \<notin> set (map p_user_id (profiles d)))
        \<longrightarrow> out_status (send_request env req d) = 404
          \<and> out_payload (send_request env req d) = Error ''Tutor not found''
          \<and> out_db (send_request env req d) = d)"
proof -
  have frame: "profiles (out_db (send_request env req d)) = profiles d"
    by (rule send_request_profiles)
  then have bal: "\<forall>u. balance (out_db (send_request env req d)) u = balance d u"
    by (simp add: balance_def select_profile_def)
  have absent: "out_db (send_request env req d) = d"
    if "req_body req = Some body" "sr_tutor_id body = Some tutor"
      "\<forall>tid. sr_uuid_in env tutor = Some tid \<longrightarrow> tid \<notin> set (map p_user_id (profiles d))"
    using that by (rule send_request_tutor_absent_db)
  have notfound: "out_status (send_request env req d) = 404
          \<and> out_payload (send_request env req d) = Error ''Tutor not found''
          \<and> out_db (send_request env req d) = d"
    if call: "req_method req \<noteq> ''OPTIONS''" "req_authorization req = Some hdr"
        "req_user req = Some user" "req_body req = Some body"
        "sr_tutor_id body = Some tutor" "tutor \<noteq> []" "\<not> falsy (sr_message body)"
        "tutor \<noteq> user"
      and learner: "balance d user = Some b" "1 \<le> b"
      and tutor: "\<forall>tid. sr_uuid_in env tutor = Some tid \<longrightarrow> tid \<notin> set (map p_user_id (profiles d))"
  proof -
    from learner(1) obtain p where p: "select_profile d user = Some p" "p_credits p = b"
      using balance_SomeD by blast
    from p(2) learner(2) have "1 \<le> p_credits p" by simp
    from send_request_tutor_absent_run [OF call p(1) this tutor]
    show ?thesis by (simp add: respond_def)
  qed
  from frame bal absent notfound show ?thesis by blast
qed

theorem send_request_frame_witness:
  "out_status (send_request send_env_ok (call alice (send_body bob)) demo_db) = 201
   \<and> profiles (out_db (send_request send_env_ok (call alice (send_body bob)) demo_db))
       = profiles demo_db
   \<and> balance (out_db (send_request send_env_ok (call alice (send_body bob)) demo_db)) alice
       = Some 3
   \<and> sr_uuid_in send_env_ok dave = Some dave
   \<and> dave \<notin> set (map p_user_id (profiles demo_db))
   \<and> out_status (send_request send_env_ok (call alice (send_body dave)) demo_db) = 404
   \<and> out_payload (send_request send_env_ok (call alice (send_body dave)) demo_db)
       = Error ''Tutor not found''
   \<and> out_db (send_request send_env_ok (call alice (send_body dave)) demo_db) = demo_db
   \<and> sr_uuid_in send_env_ok ''nobody'' = None
   \<and> out_status (send_request send_env_ok (call alice (send_body ''nobody'')) demo_db) = 404
   \<and> out_db (send_request send_env_ok (call alice (send_body ''nobody'')) demo_db) = demo_db"
proof -
  have rd: "sr_uuid_in send_env_ok = uuid_in"
    by (simp add: send_env_ok_def)
  have ok: "out_status (send_request send_env_ok (call alice (send_body bob)) demo_db) = 201"
    by (simp add: example_defs query_defs send_defs uuid_in_defs)
  have bal: "balance demo_db alice = Some 3"
    by (simp add: example_defs query_defs)
  have absent: "dave \<notin> set (map p_user_id (profiles demo_db))"
    by (simp add: example_defs)
  have ne: "dave \<noteq> alice" "dave \<noteq> []" "''nobody'' \<noteq> alice"
    by (simp_all add: example_defs)
  from send_request_frame [where req = "call alice (send_body bob)" and env = send_env_ok
      and d = demo_db and body = "send_body bob" and tutor = bob and user = alice
      and hdr = "''Bearer token''" and b = 3]
  have frame: "profiles (out_db (send_request send_env_ok (call alice (send_body bob)) demo_db))
       = profiles demo_db"
    "balance (out_db (send_request send_env_ok (call alice (send_body bob)) demo_db)) alice
       = balance demo_db alice"
    by simp_all
  from send_request_frame [where req = "call alice (send_body dave)" and env = send_env_ok
      and d = demo_db and body = "send_body dave" and tutor = dave and user = alice
      and hdr = "''Bearer token''" and b = 3]
    bal absent ne
  have gone: "out_status (send_request send_env_ok (call alice (send_body dave)) demo_db) = 404
   \<and> out_payload (send_request send_env_ok (call alice (send_body dave)) demo_db)
       = Error ''Tutor not found''
   \<and> out_db (send_request send_env_ok (call alice (send_body dave)) demo_db) = demo_db"
    by (simp add: call_def send_body_def falsy_def rd uuid_in_examples)
  from send_request_frame [where req = "call alice (send_body ''nobody'')" and env = send_env_ok
      and d = demo_db and body = "send_body ''nobody''" and tutor = "''nobody''" and user = alice
      and hdr = "''Bearer token''" and b = 3]
    bal ne
  have unread: "out_status (send_request send_env_ok (call alice (send_body ''nobody'')) demo_db)
       = 404
   \<and> out_db (send_request send_env_ok (call alice (send_body ''nobody'')) demo_db) = demo_db"
    by (simp add: call_def send_body_def falsy_def rd uuid_in_examples)
  from ok frame bal absent gone unread show ?thesis
    by (simp add: rd uuid_in_examples)
qed

section \<open>Sending a request to oneself\<close>

text \<open>
  Claim C9 says that a send-request call naming the caller as tutor is rejected with
  status 400, "You cannot send a request to yourself", and creates no row. The handler
  does so when the body spells the caller's id as the auth service does. Its check compares
  strings, though, and the store reads other spellings as the same uuid: when Alice names
  herself with her id in upper case, the check lets the call pass, the store finds her
  profile as the tutor's, and the call answers 201, having created a learning request whose
  learner and tutor are both Alice, a conversation of Alice with herself and a message.
\<close>

theorem send_to_self_other_spelling:
  "out_status (send_request send_env_ok (call alice (send_body alice)) demo_db) = 400
   \<and> out_payload (send_request send_env_ok (call alice (send_body alice)) demo_db)
       = Error ''You cannot send a request to yourself''
   \<and> out_db (send_request send_env_ok (call alice (send_body alice)) demo_db) = demo_db
   \<and> sr_uuid_in send_env_ok alice_upper = Some alice
   \<and> out_status (send_request send_env_ok (call alice (send_body alice_upper)) demo_db) = 201
   \<and> learning_requests
        (out_db (send_request send_env_ok (call alice (send_body alice_upper)) demo_db))
       = learning_requests demo_db @
         [\<lparr>lr_id = sr_new_request_id send_env_ok, lr_learner_id = alice, lr_tutor_id = alice,
           lr_skill_id = None, lr_message = Some ''Please teach me guitar'',
           lr_proposed_datetime = None, lr_status = Pending\<rparr>]
   \<and> map conv_pair (conversations
        (out_db (send_request send_env_ok (call alice (send_body alice_upper)) demo_db)))
       = [(alice, alice)]
   \<and> map m_sender_id (messages
        (out_db (send_request send_env_ok (call alice (send_body alice_upper)) demo_db)))
       = [alice]"
  by (simp add: example_defs query_defs send_defs uuid_in_defs conv_pair_def)

section \<open>One conversation per pair of users\<close>

text \<open>
  Claim C5 says that the conversation between two users is unique whoever makes
  contact, its row being kept under the sorted pair of their ids. The handler sorts the
  caller's id and the body's \<^verbatim>\<open>tutor_id\<close> as strings, and the store reads the
  sorted strings as uuids: a spelling of the tutor's id that sorts differently from its
  canonical text is looked up, and stored, under the pair in the other order. After Alice's
  request to Bob has created the conversation (Alice, Bob), her request to Bob with his id
  in upper case sorts Bob's id first, finds nothing under (Bob, Alice), which the table's
  unique constraint on the ordered pair admits, and creates a second conversation between
  the two.
\<close>

theorem conversation_duplicated:
  "map conv_pair (conversations first_contact) = [(alice, bob)]
   \<and> sr_uuid_in send_env_next bob_upper = Some bob
   \<and> sortedIds alice bob_upper = [bob_upper, alice]
   \<and> out_status (send_request send_env_next (call alice (send_body bob_upper)) first_contact)
       = 201
   \<and> map conv_pair (conversations
        (out_db (send_request send_env_next (call alice (send_body bob_upper)) first_contact)))
       = [(alice, bob), (bob, alice)]
   \<and> length (conversations_between
        (out_db (send_request send_env_next (call alice (send_body bob_upper)) first_contact))
        alice bob) = 2"
  unfolding first_contact_eq
  by (simp add: example_defs query_defs send_defs uuid_in_defs conv_pair_def
      conversations_between_def)

end
